theory Spec2Isabelle
  imports Main "HOL-Library.DAList" "HOL-Library.Sublist"
begin

section \<open>Data model\<close>

text \<open>
  Python dictionaries are association lists with distinct keys (\<open>alist\<close>): lookup is
  \<open>DAList.lookup\<close>, \<open>d[k] = v\<close> is \<open>DAList.update k v d\<close> (the value is replaced in place, a
  new key goes to the end, as in a Python dict), \<open>d.pop(k, None)\<close> is \<open>DAList.delete k d\<close>
  and \<open>d.items()\<close> is \<open>DAList.impl_of d\<close>. \<open>deepcopy\<close> of a dictionary of strings is the
  identity on values.
\<close>

type_synonym environ = "(string, string) alist"
type_synonym config = "(string, string) alist"
type_synonym command = "string list"
type_synonym run_state = "(string, command list) alist"

text \<open>Exceptions that can leave the modelled functions; each carries its message.\<close>

datatype error =
    ValueError string
  | UnboundLocalError string
  | KeyError string
  | ProviderException string
  | OSError string

text \<open>
  Modelled from the spec: the local state store (\<open>LocalStateFile\<close>, whose module is not
  among the sources). The spec gives it \<open>get_all_service_run_states\<close>, a mapping from
  service name to a run state that may hold \<open>shutdown_commands\<close>,
  \<open>set_service_run_state(name, state)\<close> and \<open>save()\<close>. The record keeps the in-memory
  run states and what the last \<open>save()\<close> wrote.
\<close>

record local_state_file =
  service_run_states :: "(string, run_state) alist"
  persisted_run_states :: "(string, run_state) alist"

definition get_all_service_run_states :: "local_state_file \<Rightarrow> (string, run_state) alist" where
  "get_all_service_run_states local_state = service_run_states local_state"

definition set_service_run_state ::
  "string \<Rightarrow> run_state \<Rightarrow> local_state_file \<Rightarrow> local_state_file" where
  "set_service_run_state service_name state local_state =
     local_state\<lparr>service_run_states :=
       DAList.update service_name state (service_run_states local_state)\<rparr>"

definition save :: "local_state_file \<Rightarrow> local_state_file" where
  "save local_state = local_state\<lparr>persisted_run_states := service_run_states local_state\<rparr>"

text \<open>
  A requirement carries its title, its environment variable and its status check
  \<open>why_not_provided\<close>, which returns \<open>None\<close> when the requirement is satisfied in the
  given environment and a reason otherwise.
\<close>

record requirement =
  title :: string
  env_var :: string
  why_not_provided :: "environ \<Rightarrow> string option"

text \<open>\<open>ProvideContext(environ, local_state_file, config)\<close> with its log and error lists.\<close>

record provide_context =
  environ :: environ
  local_state_file :: local_state_file
  config :: config
  logs :: "string list"
  errors :: "string list"

definition ProvideContext :: "environ \<Rightarrow> local_state_file \<Rightarrow> config \<Rightarrow> provide_context" where
  "ProvideContext env local_state cfg =
     \<lparr>environ = env, local_state_file = local_state, config = cfg, logs = [], errors = []\<rparr>"

text \<open>
  A provider is the pair of operations \<open>prepare\<close> calls on it. Either may raise (\<open>Inl\<close>);
  \<open>provide\<close> mutates the context it is given, so the model returns the context after
  the call.
\<close>

record provider =
  read_config :: "local_state_file \<Rightarrow> requirement \<Rightarrow> error + config"
  provide :: "requirement \<Rightarrow> provide_context \<Rightarrow> error + provide_context"

record project =
  requirements :: "requirement list"
  directory_path :: string

record configure_prepare_context =
  configure_local_state_file :: local_state_file
  requirements_and_providers :: "(requirement \<times> provider list) list"

text \<open>
  The collaborators of \<open>prepare\<close> whose modules are not among the sources are parameters:
  provider resolution (\<open>requirement.find_providers(ProviderRegistry())\<close>), loading the
  local state of a directory, and the \<open>configure_prepare\<close> methods of the two prepare UIs,
  which may change the local state before the plan runs.
\<close>

record collaborators =
  find_providers :: "requirement \<Rightarrow> provider list"
  load_for_directory :: "string \<Rightarrow> local_state_file"
  NotInteractivePrepareUI :: "configure_prepare_context \<Rightarrow> local_state_file"
  BrowserPrepareUI :: "configure_prepare_context \<Rightarrow> local_state_file"

section \<open>prepare\<close>

definition UI_MODE_TEXT :: string where "UI_MODE_TEXT = ''text''"
definition UI_MODE_BROWSER :: string where "UI_MODE_BROWSER = ''browser''"
definition UI_MODE_NOT_INTERACTIVE :: string where "UI_MODE_NOT_INTERACTIVE = ''not_interactive''"

definition all_ui_modes :: "string list" where
  "all_ui_modes = [UI_MODE_TEXT, UI_MODE_BROWSER, UI_MODE_NOT_INTERACTIVE]"

text \<open>
  \<open>_configure_prepare\<close>: the variable \<open>ui\<close> is bound in the two branches only, so any
  other mode reaches \<open>ui.configure_prepare(context)\<close> with \<open>ui\<close> unbound.
\<close>

definition configure_prepare ::
  "collaborators \<Rightarrow> string \<Rightarrow> configure_prepare_context \<Rightarrow> error + local_state_file" where
  "configure_prepare W ui_mode context =
     (if ui_mode = UI_MODE_NOT_INTERACTIVE then Inr (NotInteractivePrepareUI W context)
      else if ui_mode = UI_MODE_BROWSER then Inr (BrowserPrepareUI W context)
      else Inl (UnboundLocalError ''ui''))"

text \<open>The first loop of \<open>prepare\<close>: one \<open>(requirement, providers)\<close> pair per requirement.\<close>

fun resolve_providers ::
  "collaborators \<Rightarrow> requirement list \<Rightarrow> (requirement \<times> provider list) list \<Rightarrow>
   (requirement \<times> provider list) list" where
  "resolve_providers W [] acc = acc"
| "resolve_providers W (r # rs) acc = resolve_providers W rs (acc @ [(r, find_providers W r)])"

text \<open>The plan: the nested loops appending \<open>(provider, requirement)\<close> to \<open>plan\<close>.\<close>

type_synonym plan = "(provider \<times> requirement) list"

fun append_providers :: "provider list \<Rightarrow> requirement \<Rightarrow> plan \<Rightarrow> plan" where
  "append_providers [] r pl = pl"
| "append_providers (p # ps) r pl = append_providers ps r (pl @ [(p, r)])"

fun build_plan :: "(requirement \<times> provider list) list \<Rightarrow> plan \<Rightarrow> plan" where
  "build_plan [] pl = pl"
| "build_plan ((r, ps) # rest) pl = build_plan rest (append_providers ps r pl)"

text \<open>
  The state of a running \<open>prepare\<close>: the private copy of the environment, the local
  state, the lines printed so far on the two streams, and the calls made on providers
  so far, in order, a \<open>provide\<close> call with the context it left (kept to state which
  providers ran; the source does not store it).
\<close>

datatype provider_call =
    ReadConfigCall provider requirement
  | ProvideCall provider requirement provide_context

fun configs_read :: "provider_call list \<Rightarrow> (provider \<times> requirement) list" where
  "configs_read [] = []"
| "configs_read (ReadConfigCall p r # cs) = (p, r) # configs_read cs"
| "configs_read (ProvideCall p r context # cs) = configs_read cs"

fun provided :: "provider_call list \<Rightarrow> (provider \<times> requirement) list" where
  "provided [] = []"
| "provided (ReadConfigCall p r # cs) = provided cs"
| "provided (ProvideCall p r context # cs) = (p, r) # provided cs"

text \<open>What one provider call contributes to the error stream and to the output stream.\<close>

fun call_errors :: "provider_call \<Rightarrow> string list" where
  "call_errors (ReadConfigCall p r) = []"
| "call_errors (ProvideCall p r context) = errors context"

fun call_logs :: "provider_call \<Rightarrow> string list" where
  "call_logs (ReadConfigCall p r) = []"
| "call_logs (ProvideCall p r context) = (if errors context \<noteq> [] then logs context else [])"

record prepare_state =
  environ_copy :: environ
  local_state :: local_state_file
  stdout :: "string list"
  stderr :: "string list"
  calls :: "provider_call list"

text \<open>
  One iteration of the loop over the plan. The context shares \<open>environ_copy\<close> and the
  local state with \<open>prepare\<close>, so what the provider leaves in its context is what the
  next entry sees. The logs are printed only when there are errors, and before them.
\<close>

definition run_entry :: "provider \<times> requirement \<Rightarrow> prepare_state \<Rightarrow> error + prepare_state" where
  "run_entry entry s =
     (case entry of (p, r) \<Rightarrow>
        (case why_not_provided r (environ_copy s) of
           None \<Rightarrow> Inr s
         | Some why_not \<Rightarrow>
             (case read_config p (local_state s) r of
                Inl e \<Rightarrow> Inl e
              | Inr cfg \<Rightarrow>
                  (case provide p r (ProvideContext (environ_copy s) (local_state s) cfg) of
                     Inl e \<Rightarrow> Inl e
                   | Inr context \<Rightarrow>
                       Inr \<lparr>environ_copy = environ context,
                            local_state = local_state_file context,
                            stdout = stdout s @ (if errors context \<noteq> [] then logs context else []),
                            stderr = stderr s @ errors context,
                            calls = calls s @ [ReadConfigCall p r, ProvideCall p r context]\<rparr>))))"

fun execute_plan :: "plan \<Rightarrow> prepare_state \<Rightarrow> error + prepare_state" where
  "execute_plan [] s = Inr s"
| "execute_plan (entry # rest) s =
     (case run_entry entry s of Inl e \<Rightarrow> Inl e | Inr s' \<Rightarrow> execute_plan rest s')"

text \<open>The validation loop: \<open>failed\<close> and the lines it prints on stderr.\<close>

fun validate :: "requirement list \<Rightarrow> environ \<Rightarrow> bool \<times> string list \<Rightarrow> bool \<times> string list" where
  "validate [] env (failed, err) = (failed, err)"
| "validate (r # rs) env (failed, err) =
     (case why_not_provided r env of
        None \<Rightarrow> validate rs env (failed, err)
      | Some why_not \<Rightarrow>
          validate rs env
            (True, err @ [''missing requirement to run this project: '' @ title r,
                          ''  '' @ why_not]))"

text \<open>The commit loop over \<open>environ_copy.items()\<close>, writing into the caller's mapping.\<close>

fun commit_items :: "(string \<times> string) list \<Rightarrow> environ \<Rightarrow> environ" where
  "commit_items [] env = env"
| "commit_items ((key, val) # rest) env =
     (if DAList.lookup env key = None \<or> DAList.lookup env key \<noteq> Some val
      then commit_items rest (DAList.update key val env)
      else commit_items rest env)"

text \<open>
  What a call of \<open>prepare\<close> leaves behind: the value returned (or the exception
  raised), the caller's environment mapping after the call, and the printed lines and
  provider calls of a call that returned.
\<close>

record prepare_result =
  returned :: "error + bool"
  caller_environ :: environ
  printed_stdout :: "string list"
  printed_stderr :: "string list"
  provider_calls :: "provider_call list"

text \<open>
  Everything \<open>prepare\<close> does up to the end of the loop over the plan. The event loop
  handling (\<open>IOLoop\<close>) has no effect on the values modelled here and is left out.
\<close>

definition prepare_plan :: "collaborators \<Rightarrow> project \<Rightarrow> plan" where
  "prepare_plan W proj = build_plan (resolve_providers W (requirements proj) []) []"

definition prepare_execute ::
  "collaborators \<Rightarrow> project \<Rightarrow> string \<Rightarrow> environ \<Rightarrow> error + prepare_state" where
  "prepare_execute W proj ui_mode env =
     (if ui_mode \<notin> set all_ui_modes then Inl (ValueError (''invalid UI mode '' @ ui_mode))
      else
        (let rps = resolve_providers W (requirements proj) [];
             loaded = load_for_directory W (directory_path proj)
         in case configure_prepare W ui_mode
                   \<lparr>configure_local_state_file = loaded, requirements_and_providers = rps\<rparr> of
              Inl e \<Rightarrow> Inl e
            | Inr configured \<Rightarrow>
                execute_plan (build_plan rps [])
                  \<lparr>environ_copy = env, local_state = configured,
                   stdout = [], stderr = [], calls = []\<rparr>))"

definition prepare :: "collaborators \<Rightarrow> project \<Rightarrow> string \<Rightarrow> environ \<Rightarrow> prepare_result" where
  "prepare W proj ui_mode env =
     (case prepare_execute W proj ui_mode env of
        Inl e \<Rightarrow>
          \<lparr>returned = Inl e, caller_environ = env,
           printed_stdout = [], printed_stderr = [], provider_calls = []\<rparr>
      | Inr s \<Rightarrow>
          (case validate (requirements proj) (environ_copy s) (False, stderr s) of
             (failed, err) \<Rightarrow>
               if failed
               then \<lparr>returned = Inr False, caller_environ = env,
                     printed_stdout = stdout s, printed_stderr = err,
                     provider_calls = calls s\<rparr>
               else \<lparr>returned = Inr True,
                     caller_environ = commit_items (DAList.impl_of (environ_copy s)) env,
                     printed_stdout = stdout s, printed_stderr = err,
                     provider_calls = calls s\<rparr>))"

text \<open>
  The still-unmet requirements of a working environment as \<open>(title, reason)\<close> pairs, in
  the words of the spec, and the two lines the validation loop prints for each.
\<close>

definition unmet :: "requirement list \<Rightarrow> environ \<Rightarrow> (string \<times> string) list" where
  "unmet rs env =
     concat (map (\<lambda>r. case why_not_provided r env of
                          None \<Rightarrow> []
                        | Some why_not \<Rightarrow> [(title r, why_not)]) rs)"

definition unmet_lines :: "(string \<times> string) list \<Rightarrow> string list" where
  "unmet_lines us =
     concat (map (\<lambda>(t, why_not).
                    [''missing requirement to run this project: '' @ t, ''  '' @ why_not]) us)"

definition still_unmet ::
  "collaborators \<Rightarrow> project \<Rightarrow> string \<Rightarrow> environ \<Rightarrow> (string \<times> string) list" where
  "still_unmet W proj ui_mode env =
     (case prepare_execute W proj ui_mode env of
        Inl e \<Rightarrow> []
      | Inr s \<Rightarrow> unmet (requirements proj) (environ_copy s))"

section \<open>unprepare\<close>

text \<open>Python's \<open>str\<close> of an integer, for the printed exit status and response code.\<close>

fun str_nat :: "nat \<Rightarrow> string" where
  "str_nat n =
     (if n < 10 then [''0123456789'' ! n]
      else str_nat (n div 10) @ [''0123456789'' ! (n mod 10)])"

declare str_nat.simps [simp del]

definition str_int :: "int \<Rightarrow> string" where
  "str_int i = (if i < 0 then CHR ''-'' # str_nat (nat (- i)) else str_nat (nat i))"

text \<open>
  \<open>subprocess.call\<close> returns the exit status of the command, or raises when the command
  cannot be started; \<open>repr\<close> of a command is left to the caller of the model.
  \<open>unprepare\<close> has no exception handler, so an exception of \<open>subprocess.call\<close> leaves it;
  the model then returns the exception together with the state reached (\<open>Inl\<close>), since
  what was printed and saved before stays done.
\<close>

record process_runner =
  subprocess_call :: "command \<Rightarrow> error + int"
  repr :: "command \<Rightarrow> string"

record unprepare_state =
  state_file :: local_state_file
  printed :: "string list"
  commands_run :: "command list"

text \<open>The commands a run state records under \<open>shutdown_commands\<close>, none when the key is absent.\<close>

definition shutdown_commands_of :: "run_state \<Rightarrow> command list" where
  "shutdown_commands_of state =
     (case DAList.lookup state ''shutdown_commands'' of None \<Rightarrow> [] | Some commands \<Rightarrow> commands)"

text \<open>
  The lines printed for one shutdown command: the \<open>Running\<close> line before the call and,
  when the call returns, the line with its exit status.
\<close>

definition shutdown_lines :: "process_runner \<Rightarrow> command \<Rightarrow> string list" where
  "shutdown_lines P cmd =
     (case subprocess_call P cmd of
        Inl e \<Rightarrow> [''Running '' @ repr P cmd]
      | Inr code \<Rightarrow> [''Running '' @ repr P cmd, ''  exited with '' @ str_int code])"

text \<open>The inner loop of \<open>unprepare\<close> over the shutdown commands of one service.\<close>

fun run_shutdown_commands ::
  "process_runner \<Rightarrow> command list \<Rightarrow> unprepare_state \<Rightarrow>
   (error \<times> unprepare_state) + unprepare_state" where
  "run_shutdown_commands P [] u = Inr u"
| "run_shutdown_commands P (cmd # cmds) u =
     (case subprocess_call P cmd of
        Inl e \<Rightarrow> Inl (e, u\<lparr>printed := printed u @ [''Running '' @ repr P cmd]\<rparr>)
      | Inr code \<Rightarrow>
          run_shutdown_commands P cmds
            (u\<lparr>printed := printed u @ [''Running '' @ repr P cmd,
                                       ''  exited with '' @ str_int code],
               commands_run := commands_run u @ [cmd]\<rparr>))"

text \<open>
  The outer loop runs over the service names of a copy of the run states taken before
  the loop, and reads each state from the run states of the store as they are when the
  name is reached. The run state is cleared and the store saved after the commands of
  the service, inside the loop and outside the test for \<open>shutdown_commands\<close>.
\<close>

fun unprepare_services ::
  "process_runner \<Rightarrow> string list \<Rightarrow> unprepare_state \<Rightarrow>
   (error \<times> unprepare_state) + unprepare_state" where
  "unprepare_services P [] u = Inr u"
| "unprepare_services P (service_name # rest) u =
     (case DAList.lookup (get_all_service_run_states (state_file u)) service_name of
        None \<Rightarrow> Inl (KeyError service_name, u)
      | Some state \<Rightarrow>
          (case (case DAList.lookup state ''shutdown_commands'' of
                   None \<Rightarrow> Inr u
                 | Some commands \<Rightarrow> run_shutdown_commands P commands u) of
             Inl raised \<Rightarrow> Inl raised
           | Inr u' \<Rightarrow>
               unprepare_services P rest
                 (u'\<lparr>state_file :=
                       save (set_service_run_state service_name DAList.empty (state_file u'))\<rparr>)))"

definition unprepare ::
  "collaborators \<Rightarrow> process_runner \<Rightarrow> project \<Rightarrow>
   (error \<times> unprepare_state) + unprepare_state" where
  "unprepare W P proj =
     (let loaded = load_for_directory W (directory_path proj);
          run_states = get_all_service_run_states loaded
      in unprepare_services P (map fst (DAList.impl_of run_states))
           \<lparr>state_file = loaded, printed = [], commands_run = []\<rparr>)"

section \<open>DownloadProvider\<close>

datatype provide_mode = PROVIDE_MODE_PRODUCTION | PROVIDE_MODE_DEVELOPMENT | PROVIDE_MODE_CHECK

record download_requirement = requirement +
  url :: string
  filename :: string
  hash_algorithm :: "string option"

record provider_analysis =
  analysis_config :: config
  missing_env_vars_to_configure :: "string list"
  missing_env_vars_to_provide :: "string list"
  existing_filename :: "string option"

text \<open>
  The context \<open>DownloadProvider\<close> works on also has \<open>mode\<close> and \<open>status.analysis\<close>.
\<close>

record download_context = provide_context +
  mode :: provide_mode
  status_analysis :: provider_analysis

text \<open>
  What \<open>DownloadProvider\<close> calls outside the sources: the methods of its superclass
  \<open>EnvVarProvider\<close>; the construction of the event loop \<open>IOLoop(make_current=False)\<close>,
  which returns or raises an exception with the given text; the download
  (\<open>FileDownloader\<close> run on that loop), which gives a response code or raises an exception
  with the given text; the closing of the loop, which returns or raises; and
  \<open>os.path.abspath(os.path.join(dir, name))\<close>.
\<close>

record download_collaborators =
  EnvVarProvider_provide :: "download_requirement \<Rightarrow> download_context \<Rightarrow> error + download_context"
  EnvVarProvider_set_config_values_as_strings ::
    "string \<Rightarrow> environ \<Rightarrow> local_state_file \<Rightarrow> config \<Rightarrow> environ \<times> local_state_file"
  IOLoop_new :: "string option"
  FileDownloader_run :: "string \<Rightarrow> string \<Rightarrow> string option \<Rightarrow> string + int"
  IOLoop_close :: "error option"
  abspath_join :: "string \<Rightarrow> string \<Rightarrow> string"

text \<open>
  \<open>set_config_values_as_strings\<close>: after the superclass has stored the values, the
  requirement's variable is popped from the environment unless the chosen source is
  \<open>environ\<close>. The requirement enters through its \<open>env_var\<close> only.
\<close>

definition DownloadProvider_set_config_values_as_strings ::
  "download_collaborators \<Rightarrow> string \<Rightarrow> environ \<Rightarrow> local_state_file \<Rightarrow> config \<Rightarrow>
   environ \<times> local_state_file" where
  "DownloadProvider_set_config_values_as_strings D requirement_env_var env state_store vals =
     (case EnvVarProvider_set_config_values_as_strings D requirement_env_var env state_store vals of
        (env1, state_store1) \<Rightarrow>
          if DAList.lookup vals ''source'' \<noteq> None \<and> DAList.lookup vals ''source'' \<noteq> Some ''environ''
          then (DAList.delete requirement_env_var env1, state_store1)
          else (env1, state_store1))"

text \<open>
  \<open>_provide_download\<close> returns the filename or \<open>None\<close>. The lookup of \<open>PROJECT_DIR\<close> and
  the construction of the downloader come before the \<open>try\<close>. Inside it the event loop is
  constructed and bound to \<open>_ioloop\<close>, and the download is run; the \<open>except\<close> clause
  turns any exception of the two into a message in \<open>context.errors\<close>; the \<open>finally\<close>
  clause closes \<open>_ioloop\<close>. When the construction of the loop raised, \<open>_ioloop\<close> is
  unbound there: the message has been appended, and \<open>UnboundLocalError\<close> leaves the
  function in place of the return. An exception of \<open>close\<close> leaves it as well.
\<close>

definition DownloadProvider_provide_download ::
  "download_collaborators \<Rightarrow> download_requirement \<Rightarrow> download_context \<Rightarrow>
   error + (string option \<times> download_context)" where
  "DownloadProvider_provide_download D requirement context =
     (case existing_filename (status_analysis context) of
        Some fname \<Rightarrow>
          Inr (Some fname,
               context\<lparr>logs := logs context @ [''Previously downloaded file located at '' @ fname]\<rparr>)
      | None \<Rightarrow>
          (case DAList.lookup (environ context) ''PROJECT_DIR'' of
             None \<Rightarrow> Inl (KeyError ''PROJECT_DIR'')
           | Some project_dir \<Rightarrow>
               (let fname = abspath_join D project_dir (filename requirement)
                in case IOLoop_new D of
                     Some e \<Rightarrow> Inl (UnboundLocalError ''_ioloop'')
                   | None \<Rightarrow>
                       (let result =
                          (case FileDownloader_run D (url requirement) fname
                                  (hash_algorithm requirement) of
                             Inr code \<Rightarrow>
                               if code = 200 then (Some fname, context)
                               else (None,
                                     context\<lparr>errors := errors context @
                                       [''Error downloading '' @ url requirement @
                                        '': response code '' @ str_int code]\<rparr>)
                           | Inl e \<Rightarrow>
                               (None,
                                context\<lparr>errors := errors context @
                                  [''Error downloading '' @ url requirement @ '': '' @ e]\<rparr>))
                        in case IOLoop_close D of
                             Some e \<Rightarrow> Inl e
                           | None \<Rightarrow> Inr result))))"

text \<open>
  The test of \<open>provide\<close>: \<open>env_var not in environ or config['source'] == 'download'\<close>. The
  right operand is evaluated only when the variable is set, and raises when the config has
  no \<open>source\<close>.
\<close>

definition download_wanted :: "download_requirement \<Rightarrow> download_context \<Rightarrow> error + bool" where
  "download_wanted requirement context =
     (if DAList.lookup (environ context) (env_var requirement) = None then Inr True
      else (case DAList.lookup (analysis_config (status_analysis context)) ''source'' of
              None \<Rightarrow> Inl (KeyError ''source'')
            | Some source \<Rightarrow> Inr (source = ''download'')))"

definition DownloadProvider_provide ::
  "download_collaborators \<Rightarrow> download_requirement \<Rightarrow> download_context \<Rightarrow>
   error + download_context" where
  "DownloadProvider_provide D requirement context =
     (case EnvVarProvider_provide D requirement context of
        Inl e \<Rightarrow> Inl e
      | Inr context1 \<Rightarrow>
          if mode context1 = PROVIDE_MODE_CHECK then Inr context1
          else
            (case download_wanted requirement context1 of
               Inl e \<Rightarrow> Inl e
             | Inr False \<Rightarrow> Inr context1
             | Inr True \<Rightarrow>
                 (case DownloadProvider_provide_download D requirement context1 of
                    Inl e \<Rightarrow> Inl e
                  | Inr (None, context2) \<Rightarrow> Inr context2
                  | Inr (Some fname, context2) \<Rightarrow>
                      Inr (context2\<lparr>environ :=
                             DAList.update (env_var requirement) fname (environ context2)\<rparr>))))"

section \<open>Concrete requirements, providers and collaborators\<close>

text \<open>
  Instances on which the theorems below are exercised: a requirement that its variable
  be set, a provider that sets the variable, one that only records a log line and an
  error, one that sets the variable and pops another key from the working environment,
  and collaborators with a no-op configure step.
\<close>

definition env_var_requirement :: "string \<Rightarrow> requirement" where
  "env_var_requirement name =
     \<lparr>title = name, env_var = name,
      why_not_provided =
        (\<lambda>env. if DAList.lookup env name = None
               then Some (''Environment variable '' @ name @ '' is not set'')
               else None)\<rparr>"

definition no_config :: "local_state_file \<Rightarrow> requirement \<Rightarrow> error + config" where
  "no_config state_store r = Inr DAList.empty"

definition setting_provider :: "string \<Rightarrow> provider" where
  "setting_provider v =
     \<lparr>read_config = no_config,
      provide = (\<lambda>r context.
        Inr (context\<lparr>environ := DAList.update (env_var r) v (environ context)\<rparr>))\<rparr>"

definition failing_provider :: "string \<Rightarrow> provider" where
  "failing_provider msg =
     \<lparr>read_config = no_config,
      provide = (\<lambda>r context.
        Inr (context\<lparr>logs := logs context @ [''trying''],
                     errors := errors context @ [msg]\<rparr>))\<rparr>"

definition popping_provider :: "string \<Rightarrow> string \<Rightarrow> provider" where
  "popping_provider old v =
     \<lparr>read_config = no_config,
      provide = (\<lambda>r context.
        Inr (context\<lparr>environ :=
               DAList.update (env_var r) v (DAList.delete old (environ context))\<rparr>))\<rparr>"

definition empty_local_state :: local_state_file where
  "empty_local_state =
     \<lparr>service_run_states = DAList.empty, persisted_run_states = DAList.empty\<rparr>"

definition example_collaborators ::
  "(requirement \<Rightarrow> provider list) \<Rightarrow> local_state_file \<Rightarrow> collaborators" where
  "example_collaborators resolve loaded =
     \<lparr>find_providers = resolve, load_for_directory = (\<lambda>d. loaded),
      NotInteractivePrepareUI = configure_local_state_file,
      BrowserPrepareUI = configure_local_state_file\<rparr>"

definition example_project :: "string list \<Rightarrow> project" where
  "example_project names =
     \<lparr>requirements = map env_var_requirement names, directory_path = ''/project''\<rparr>"

text \<open>
  Resolution used in the instances: the requirement \<open>FOO\<close> has a provider that fails,
  \<open>BAR\<close> one that sets it, \<open>NEW\<close> one that sets it and pops \<open>OLD\<close>; any other
  requirement has no provider.
\<close>

definition example_resolve :: "requirement \<Rightarrow> provider list" where
  "example_resolve r =
     (if env_var r = ''FOO'' then [failing_provider ''boom'']
      else if env_var r = ''BAR'' then [setting_provider ''1'']
      else if env_var r = ''NEW'' then [popping_provider ''OLD'' ''2'']
      else [])"

definition example_world :: collaborators where
  "example_world = example_collaborators example_resolve empty_local_state"

definition home_environ :: environ where
  "home_environ = DAList.update ''HOME'' ''/home'' DAList.empty"

text \<open>The state in which the loop over the plan starts, with an empty local state.\<close>

definition initial_state :: "environ \<Rightarrow> prepare_state" where
  "initial_state env =
     \<lparr>environ_copy = env, local_state = empty_local_state, stdout = [], stderr = [], calls = []\<rparr>"

text \<open>
  For \<open>unprepare\<close>: a runner whose command \<open>stop-db\<close> exits with status 1 and every other
  command with 0, a runner for which \<open>stop-db\<close> cannot be started, and a local state
  recording three services, one without shutdown commands.
\<close>

definition example_runner :: process_runner where
  "example_runner =
     \<lparr>subprocess_call = (\<lambda>cmd. if cmd = [''stop-db''] then Inr 1 else Inr 0),
      repr = concat\<rparr>"

definition missing_program_runner :: process_runner where
  "missing_program_runner =
     \<lparr>subprocess_call =
        (\<lambda>cmd. if cmd = [''stop-db''] then Inl (OSError ''No such file or directory'')
               else Inr 0),
      repr = concat\<rparr>"

definition services_state :: local_state_file where
  "services_state =
     \<lparr>service_run_states =
        DAList.update ''web'' (DAList.update ''shutdown_commands'' [[''kill'', ''web'']] DAList.empty)
          (DAList.update ''cache'' (DAList.update ''port'' [] DAList.empty)
            (DAList.update ''db''
               (DAList.update ''shutdown_commands'' [[''stop-db''], [''rm'', ''pid'']] DAList.empty)
               DAList.empty)),
      persisted_run_states = DAList.empty\<rparr>"

text \<open>
  For \<open>DownloadProvider\<close>: a download requirement, collaborators whose download has a
  fixed outcome and whose superclass methods change nothing, and a context in provide
  mode with no previously downloaded file.
\<close>

definition data_csv :: download_requirement where
  "data_csv =
     \<lparr>title = ''data.csv requirement'', env_var = ''DATA_CSV'',
      why_not_provided =
        (\<lambda>env. if DAList.lookup env ''DATA_CSV'' = None
               then Some ''Environment variable DATA_CSV is not set'' else None),
      url = ''http://example.com/data.csv'', filename = ''data.csv'', hash_algorithm = None\<rparr>"

definition example_downloads :: "(string + int) \<Rightarrow> download_collaborators" where
  "example_downloads outcome =
     \<lparr>EnvVarProvider_provide = (\<lambda>requirement context. Inr context),
      EnvVarProvider_set_config_values_as_strings = (\<lambda>v env state_store vals. (env, state_store)),
      IOLoop_new = None,
      FileDownloader_run = (\<lambda>u f h. outcome),
      IOLoop_close = None,
      abspath_join = (\<lambda>dir name. dir @ ''/'' @ name)\<rparr>"

definition download_context_of :: "environ \<Rightarrow> download_context" where
  "download_context_of env =
     \<lparr>environ = env, local_state_file = empty_local_state, config = DAList.empty,
      logs = [], errors = [],
      mode = PROVIDE_MODE_PRODUCTION,
      status_analysis =
        \<lparr>analysis_config = DAList.update ''source'' ''download'' DAList.empty,
         missing_env_vars_to_configure = [], missing_env_vars_to_provide = [''DATA_CSV''],
         existing_filename = None\<rparr>\<rparr>"

definition project_environ :: environ where
  "project_environ =
     DAList.update ''DATA_CSV'' ''/old/data.csv''
       (DAList.update ''PROJECT_DIR'' ''/project'' DAList.empty)"

section \<open>Properties of the loops of prepare\<close>

lemma resolve_providers_eq:
  "resolve_providers W rs acc = acc @ map (\<lambda>r. (r, find_providers W r)) rs"
  by (induction rs arbitrary: acc) simp_all

lemma append_providers_eq: "append_providers ps r pl = pl @ map (\<lambda>p. (p, r)) ps"
  by (induction ps arbitrary: pl) simp_all

lemma build_plan_eq:
  "build_plan rps pl = pl @ concat (map (\<lambda>(r, ps). map (\<lambda>p. (p, r)) ps) rps)"
  by (induction rps arbitrary: pl) (auto simp: append_providers_eq)

lemma prepare_plan_eq:
  "prepare_plan W proj =
     concat (map (\<lambda>r. map (\<lambda>p. (p, r)) (find_providers W r)) (requirements proj))"
  by (simp add: prepare_plan_def build_plan_eq resolve_providers_eq comp_def)

lemma prepare_plan_requirements:
  "(p, r) \<in> set (prepare_plan W proj) \<Longrightarrow> r \<in> set (requirements proj)"
  by (auto simp: prepare_plan_eq)

lemma execute_plan_append:
  "execute_plan (xs @ ys) s =
     (case execute_plan xs s of Inl e \<Rightarrow> Inl e | Inr s' \<Rightarrow> execute_plan ys s')"
  by (induction xs arbitrary: s) (auto split: sum.splits)

lemma run_entry_satisfied:
  "why_not_provided r (environ_copy s) = None \<Longrightarrow> run_entry (p, r) s = Inr s"
  by (simp add: run_entry_def)

lemma execute_plan_satisfied:
  "(\<forall>(p, r)\<in>set pl. why_not_provided r (environ_copy s) = None) \<Longrightarrow> execute_plan pl s = Inr s"
  by (induction pl) (auto simp: run_entry_satisfied)

lemma provided_append: "provided (xs @ ys) = provided xs @ provided ys"
  by (induction xs rule: provided.induct) simp_all

lemma configs_read_append: "configs_read (xs @ ys) = configs_read xs @ configs_read ys"
  by (induction xs rule: configs_read.induct) simp_all

lemma run_entry_trace:
  assumes "run_entry (p, r) s = Inr s'"
  shows "\<exists>cs. calls s' = calls s @ cs \<and>
              (cs = [] \<or> (\<exists>context. cs = [ReadConfigCall p r, ProvideCall p r context])) \<and>
              stderr s' = stderr s @ concat (map call_errors cs) \<and>
              stdout s' = stdout s @ concat (map call_logs cs)"
  using assms by (auto simp: run_entry_def split: option.splits sum.splits)

lemma execute_plan_trace:
  "execute_plan pl s = Inr s' \<Longrightarrow>
   \<exists>cs. calls s' = calls s @ cs \<and> subseq (provided cs) pl \<and> subseq (configs_read cs) pl \<and>
        stderr s' = stderr s @ concat (map call_errors cs) \<and>
        stdout s' = stdout s @ concat (map call_logs cs)"
proof (induction pl arbitrary: s)
  case Nil
  then show ?case by simp
next
  case (Cons entry pl)
  obtain p r where entry: "entry = (p, r)" by (cases entry)
  from Cons.prems obtain s1 where step: "run_entry (p, r) s = Inr s1"
    and rest: "execute_plan pl s1 = Inr s'"
    by (auto simp: entry split: sum.splits)
  from run_entry_trace[OF step] obtain c1 where
    c1: "calls s1 = calls s @ c1"
        "c1 = [] \<or> (\<exists>context. c1 = [ReadConfigCall p r, ProvideCall p r context])"
        "stderr s1 = stderr s @ concat (map call_errors c1)"
        "stdout s1 = stdout s @ concat (map call_logs c1)"
    by blast
  from Cons.IH[OF rest] obtain c2 where
    c2: "calls s' = calls s1 @ c2" "subseq (provided c2) pl" "subseq (configs_read c2) pl"
        "stderr s' = stderr s1 @ concat (map call_errors c2)"
        "stdout s' = stdout s1 @ concat (map call_logs c2)"
    by blast
  have "subseq (provided (c1 @ c2)) (entry # pl)" "subseq (configs_read (c1 @ c2)) (entry # pl)"
    using c1(2) c2(2,3) by (auto simp: entry provided_append configs_read_append)
  with c1 c2 show ?case
    by (intro exI[of _ "c1 @ c2"]) simp
qed

lemma prepare_execute_trace:
  assumes "prepare_execute W proj ui_mode env = Inr s"
  shows "subseq (provided (calls s)) (prepare_plan W proj) \<and>
         subseq (configs_read (calls s)) (prepare_plan W proj) \<and>
         stderr s = concat (map call_errors (calls s)) \<and>
         stdout s = concat (map call_logs (calls s))"
proof -
  from assms obtain s0 where
    run: "execute_plan (prepare_plan W proj) s0 = Inr s" and
    init: "calls s0 = []" "stderr s0 = []" "stdout s0 = []"
    by (auto simp: prepare_execute_def prepare_plan_def Let_def split: if_splits sum.splits)
  from execute_plan_trace[OF run] init show ?thesis by auto
qed

lemma execute_plan_snoc:
  "execute_plan (xs @ [entry]) s =
     (case execute_plan xs s of Inl e \<Rightarrow> Inl e | Inr s' \<Rightarrow> run_entry entry s')"
  by (simp add: execute_plan_append split: sum.splits)

lemma execute_plan_reaches:
  assumes "execute_plan pl s0 = Inr s" and "i < length pl"
  shows "\<exists>si. execute_plan (take i pl) s0 = Inr si \<and>
              execute_plan (take (Suc i) pl) s0 = run_entry (pl ! i) si \<and>
              (\<exists>sj. run_entry (pl ! i) si = Inr sj)"
proof -
  have split: "pl = take i pl @ pl ! i # drop (Suc i) pl"
    using assms(2) by (simp add: id_take_nth_drop[symmetric])
  from assms(1) have "execute_plan (take i pl @ pl ! i # drop (Suc i) pl) s0 = Inr s"
    using split by simp
  then obtain si sj where
    a: "execute_plan (take i pl) s0 = Inr si" and b: "run_entry (pl ! i) si = Inr sj"
    by (auto simp: execute_plan_append split: sum.splits)
  have "execute_plan (take (Suc i) pl) s0 = run_entry (pl ! i) si"
    using a assms(2) by (simp add: take_Suc_conv_app_nth execute_plan_snoc)
  with a b show ?thesis by blast
qed

lemma execute_plan_raises:
  "execute_plan pl s0 = Inl e \<Longrightarrow>
   \<exists>i<length pl. \<exists>si. execute_plan (take i pl) s0 = Inr si \<and> run_entry (pl ! i) si = Inl e"
proof (induction pl arbitrary: s0)
  case Nil
  then show ?case by simp
next
  case (Cons entry pl)
  show ?case
  proof (cases "run_entry entry s0")
    case (Inl e')
    with Cons.prems have "e' = e" by simp
    with Inl show ?thesis by (intro exI[of _ 0]) simp
  next
    case (Inr s1)
    with Cons.prems have "execute_plan pl s1 = Inl e" by simp
    from Cons.IH[OF this] obtain i si where
      "i < length pl" "execute_plan (take i pl) s1 = Inr si" "run_entry (pl ! i) si = Inl e"
      by blast
    with Inr show ?thesis by (intro exI[of _ "Suc i"]) simp
  qed
qed

lemma run_entry_returns:
  assumes run: "run_entry (p, r) si = Inr sj"
  shows "(case why_not_provided r (environ_copy si) of
      None \<Rightarrow> sj = si
    | Some why_not \<Rightarrow>
        (\<exists>cfg context.
           read_config p (local_state si) r = Inr cfg \<and>
           provide p r (ProvideContext (environ_copy si) (local_state si) cfg) = Inr context \<and>
           sj = \<lparr>environ_copy = environ context,
                 local_state = local_state_file context,
                 stdout = stdout si @ (if errors context \<noteq> [] then logs context else []),
                 stderr = stderr si @ errors context,
                 calls = calls si @ [ReadConfigCall p r, ProvideCall p r context]\<rparr>))"
proof (cases "why_not_provided r (environ_copy si)")
  case None
  with run show ?thesis by (simp add: run_entry_def)
next
  case (Some why_not)
  from run Some obtain cfg where cfg: "read_config p (local_state si) r = Inr cfg"
    by (cases "read_config p (local_state si) r") (simp_all add: run_entry_def)
  from run Some cfg obtain c where
    ctx: "provide p r (ProvideContext (environ_copy si) (local_state si) cfg) = Inr c"
    by (cases "provide p r (ProvideContext (environ_copy si) (local_state si) cfg)")
       (simp_all add: run_entry_def)
  from run Some cfg ctx have "sj = \<lparr>environ_copy = environ c,
                 local_state = local_state_file c,
                 stdout = stdout si @ (if errors c \<noteq> [] then logs c else []),
                 stderr = stderr si @ errors c,
                 calls = calls si @ [ReadConfigCall p r, ProvideCall p r c]\<rparr>"
    by (simp add: run_entry_def)
  with Some cfg ctx show ?thesis by simp
qed

lemma run_entry_raises:
  "run_entry (p, r) si = Inl e \<Longrightarrow>
   why_not_provided r (environ_copy si) \<noteq> None \<and>
   (read_config p (local_state si) r = Inl e \<or>
    (\<exists>cfg. read_config p (local_state si) r = Inr cfg \<and>
           provide p r (ProvideContext (environ_copy si) (local_state si) cfg) = Inl e))"
  by (auto simp: run_entry_def split: option.splits sum.splits)

lemma prepare_execute_initial:
  assumes "prepare_execute W proj ui_mode env = Inr s"
  shows "\<exists>configured.
           configure_prepare W ui_mode
             \<lparr>configure_local_state_file = load_for_directory W (directory_path proj),
              requirements_and_providers =
                map (\<lambda>r. (r, find_providers W r)) (requirements proj)\<rparr> = Inr configured \<and>
           execute_plan (prepare_plan W proj)
             \<lparr>environ_copy = env, local_state = configured,
              stdout = [], stderr = [], calls = []\<rparr> = Inr s"
  using assms
  by (auto simp: prepare_execute_def prepare_plan_def Let_def resolve_providers_eq
           split: if_splits sum.splits)

lemma commit_items_lookup:
  "distinct (map fst items) \<Longrightarrow>
   DAList.lookup (commit_items items env) key =
     (case map_of items key of Some v \<Rightarrow> Some v | None \<Rightarrow> DAList.lookup env key)"
proof (induction items arbitrary: env)
  case Nil
  then show ?case by simp
next
  case (Cons kv items)
  obtain k v where kv: "kv = (k, v)" by (cases kv)
  from Cons.prems kv have d: "distinct (map fst items)" and nk: "map_of items k = None"
    by (auto simp: map_of_eq_None_iff)
  show ?case
    using Cons.IH[OF d] nk kv
    by (auto simp: DAList.lookup_update split: option.splits)
qed

lemma commit_lookup:
  "DAList.lookup (commit_items (DAList.impl_of c) env) key =
     (case DAList.lookup c key of Some v \<Rightarrow> Some v | None \<Rightarrow> DAList.lookup env key)"
  using commit_items_lookup[of "DAList.impl_of c" env key]
  by (simp add: DAList.lookup.rep_eq[of c])

lemma validate_eq:
  "validate rs env (failed, err) =
     (failed \<or> unmet rs env \<noteq> [], err @ unmet_lines (unmet rs env))"
  by (induction rs arbitrary: failed err)
     (auto simp: unmet_def unmet_lines_def split: option.splits)

lemma unmet_empty_iff:
  "unmet rs env = [] \<longleftrightarrow> (\<forall>r\<in>set rs. why_not_provided r env = None)"
  by (induction rs) (auto simp: unmet_def split: option.splits)

lemma unmet_lines_unmet:
  "unmet_lines (unmet rs env) =
     concat (map (\<lambda>r. case why_not_provided r env of
                          None \<Rightarrow> []
                        | Some why_not \<Rightarrow>
                            [''missing requirement to run this project: '' @ title r,
                             ''  '' @ why_not]) rs)"
  by (induction rs) (auto simp: unmet_def unmet_lines_def split: option.splits)

lemma prepare_returned:
  assumes "prepare_execute W proj ui_mode env = Inr s"
  shows "prepare W proj ui_mode env =
     \<lparr>returned = Inr (unmet (requirements proj) (environ_copy s) = []),
      caller_environ = (if unmet (requirements proj) (environ_copy s) = []
                        then commit_items (DAList.impl_of (environ_copy s)) env else env),
      printed_stdout = stdout s,
      printed_stderr = stderr s @ unmet_lines (unmet (requirements proj) (environ_copy s)),
      provider_calls = calls s\<rparr>"
  using assms by (simp add: prepare_def validate_eq)

lemma prepare_raised:
  assumes "prepare_execute W proj ui_mode env = Inl e"
  shows "prepare W proj ui_mode env =
     \<lparr>returned = Inl e, caller_environ = env,
      printed_stdout = [], printed_stderr = [], provider_calls = []\<rparr>"
  using assms by (simp add: prepare_def)

lemmas example_defs =
  example_collaborators_def example_project_def env_var_requirement_def
  setting_provider_def failing_provider_def popping_provider_def no_config_def
  empty_local_state_def prepare_def prepare_execute_def configure_prepare_def
  all_ui_modes_def UI_MODE_TEXT_def UI_MODE_BROWSER_def UI_MODE_NOT_INTERACTIVE_def
  run_entry_def ProvideContext_def prepare_plan_def
  example_resolve_def example_world_def home_environ_def initial_state_def

lemmas alist_rep = DAList.update.rep_eq DAList.empty.rep_eq DAList.delete.rep_eq

lemmas download_defs =
  example_downloads_def data_csv_def download_context_of_def project_environ_def
  download_wanted_def

section \<open>Properties of the loops of unprepare\<close>

lemma run_shutdown_commands_returns:
  "\<forall>cmd\<in>set cmds. \<exists>code. subprocess_call P cmd = Inr code \<Longrightarrow>
   \<exists>u'. run_shutdown_commands P cmds u = Inr u' \<and>
        commands_run u' = commands_run u @ cmds \<and>
        printed u' = printed u @ concat (map (shutdown_lines P) cmds) \<and>
        state_file u' = state_file u"
proof (induction cmds arbitrary: u)
  case Nil
  then show ?case by simp
next
  case (Cons cmd cmds)
  then obtain code where code: "subprocess_call P cmd = Inr code" by auto
  let ?u1 = "u\<lparr>printed := printed u @ [''Running '' @ repr P cmd, ''  exited with '' @ str_int code],
               commands_run := commands_run u @ [cmd]\<rparr>"
  from Cons.IH[of ?u1] Cons.prems obtain u' where
    "run_shutdown_commands P cmds ?u1 = Inr u'" "commands_run u' = commands_run ?u1 @ cmds"
    "printed u' = printed ?u1 @ concat (map (shutdown_lines P) cmds)"
    "state_file u' = state_file ?u1"
    by auto
  moreover have "shutdown_lines P cmd =
      [''Running '' @ repr P cmd, ''  exited with '' @ str_int code]"
    using code by (simp add: shutdown_lines_def)
  ultimately show ?case using code by simp
qed

lemma service_shutdown_returns:
  assumes "\<forall>cmd\<in>set (shutdown_commands_of state). \<exists>code. subprocess_call P cmd = Inr code"
  shows "\<exists>u'. (case DAList.lookup state ''shutdown_commands'' of
                 None \<Rightarrow> Inr u
               | Some commands \<Rightarrow> run_shutdown_commands P commands u) = Inr u' \<and>
              commands_run u' = commands_run u @ shutdown_commands_of state \<and>
              printed u' = printed u @ concat (map (shutdown_lines P) (shutdown_commands_of state)) \<and>
              state_file u' = state_file u"
proof (cases "DAList.lookup state ''shutdown_commands''")
  case None
  then show ?thesis by (simp add: shutdown_commands_of_def)
next
  case (Some commands)
  with assms have "\<forall>cmd\<in>set commands. \<exists>code. subprocess_call P cmd = Inr code"
    by (simp add: shutdown_commands_of_def)
  from run_shutdown_commands_returns[OF this, of u] Some show ?thesis
    by (simp add: shutdown_commands_of_def)
qed

lemma unprepare_services_returns:
  assumes "distinct names"
    and "\<forall>n\<in>set names. \<exists>state. DAList.lookup (service_run_states (state_file u)) n = Some state \<and>
           (\<forall>cmd\<in>set (shutdown_commands_of state). \<exists>code. subprocess_call P cmd = Inr code)"
  shows "\<exists>u'. unprepare_services P names u = Inr u' \<and>
          commands_run u' = commands_run u @
            concat (map (\<lambda>n. shutdown_commands_of
                                (the (DAList.lookup (service_run_states (state_file u)) n))) names) \<and>
          printed u' = printed u @
            concat (map (shutdown_lines P)
              (concat (map (\<lambda>n. shutdown_commands_of
                                (the (DAList.lookup (service_run_states (state_file u)) n))) names))) \<and>
          (\<forall>n. DAList.lookup (service_run_states (state_file u')) n =
                 (if n \<in> set names then Some DAList.empty
                  else DAList.lookup (service_run_states (state_file u)) n)) \<and>
          persisted_run_states (state_file u') =
            (if names = [] then persisted_run_states (state_file u)
             else service_run_states (state_file u'))"
  using assms
proof (induction names arbitrary: u)
  case Nil
  then show ?case by simp
next
  case (Cons name names)
  let ?rs = "service_run_states (state_file u)"
  from Cons.prems(2) obtain state where
    st: "DAList.lookup ?rs name = Some state" and
    ok: "\<forall>cmd\<in>set (shutdown_commands_of state). \<exists>code. subprocess_call P cmd = Inr code"
    by auto
  from service_shutdown_returns[OF ok, of u] obtain u1 where
    u1: "(case DAList.lookup state ''shutdown_commands'' of
            None \<Rightarrow> Inr u
          | Some commands \<Rightarrow> run_shutdown_commands P commands u) = Inr u1"
        "commands_run u1 = commands_run u @ shutdown_commands_of state"
        "printed u1 = printed u @ concat (map (shutdown_lines P) (shutdown_commands_of state))"
        "state_file u1 = state_file u"
    by blast
  let ?u2 = "u1\<lparr>state_file := save (set_service_run_state name DAList.empty (state_file u1))\<rparr>"
  have rs2: "service_run_states (state_file ?u2) = DAList.update name DAList.empty ?rs"
    and ps2: "persisted_run_states (state_file ?u2) = DAList.update name DAList.empty ?rs"
    by (simp_all add: save_def set_service_run_state_def u1(4))
  from Cons.prems(1) have dist: "distinct names" and notin: "name \<notin> set names" by simp_all
  have same: "\<And>n. n \<in> set names \<Longrightarrow>
      DAList.lookup (service_run_states (state_file ?u2)) n = DAList.lookup ?rs n"
    using notin unfolding rs2 by (auto simp: DAList.lookup_update)
  have pre: "\<forall>n\<in>set names. \<exists>state.
        DAList.lookup (service_run_states (state_file ?u2)) n = Some state \<and>
        (\<forall>cmd\<in>set (shutdown_commands_of state). \<exists>code. subprocess_call P cmd = Inr code)"
    using Cons.prems(2) same by simp
  from Cons.IH[OF dist pre] obtain u' where
    run: "unprepare_services P names ?u2 = Inr u'" and
    cr: "commands_run u' = commands_run ?u2 @
            concat (map (\<lambda>n. shutdown_commands_of
                          (the (DAList.lookup (service_run_states (state_file ?u2)) n))) names)" and
    pr: "printed u' = printed ?u2 @
            concat (map (shutdown_lines P)
              (concat (map (\<lambda>n. shutdown_commands_of
                          (the (DAList.lookup (service_run_states (state_file ?u2)) n))) names)))" and
    lk: "\<forall>n. DAList.lookup (service_run_states (state_file u')) n =
                 (if n \<in> set names then Some DAList.empty
                  else DAList.lookup (service_run_states (state_file ?u2)) n)" and
    ps: "persisted_run_states (state_file u') =
            (if names = [] then persisted_run_states (state_file ?u2)
             else service_run_states (state_file u'))"
    by blast
  have maps: "map (\<lambda>n. shutdown_commands_of
                 (the (DAList.lookup (service_run_states (state_file ?u2)) n))) names =
        map (\<lambda>n. shutdown_commands_of (the (DAList.lookup ?rs n))) names"
    using same by (intro map_cong) simp_all
  have whole: "unprepare_services P (name # names) u = Inr u'"
    using st u1(1) run by (simp add: get_all_service_run_states_def)
  have c: "commands_run u' = commands_run u @
            concat (map (\<lambda>n. shutdown_commands_of (the (DAList.lookup ?rs n))) (name # names))"
  proof -
    from cr have "commands_run u' = commands_run ?u2 @
        concat (map (\<lambda>n. shutdown_commands_of (the (DAList.lookup ?rs n))) names)"
      by (simp only: maps)
    with u1(2) st show ?thesis by simp
  qed
  have p: "printed u' = printed u @
            concat (map (shutdown_lines P)
              (concat (map (\<lambda>n. shutdown_commands_of (the (DAList.lookup ?rs n)))
                         (name # names))))"
  proof -
    from pr have "printed u' = printed ?u2 @
        concat (map (shutdown_lines P)
          (concat (map (\<lambda>n. shutdown_commands_of (the (DAList.lookup ?rs n))) names)))"
      by (simp only: maps)
    with u1(3) st show ?thesis by simp
  qed
  have l: "\<forall>n. DAList.lookup (service_run_states (state_file u')) n =
                 (if n \<in> set (name # names) then Some DAList.empty else DAList.lookup ?rs n)"
    using lk unfolding rs2 by (auto simp: DAList.lookup_update)
  have q: "persisted_run_states (state_file u') = service_run_states (state_file u')"
  proof (cases "names = []")
    case True
    with run have "u' = ?u2" by simp
    with rs2 ps2 show ?thesis by simp
  next
    case False
    with ps show ?thesis by simp
  qed
  from whole c p l q show ?case by (intro exI[of _ u']) simp
qed

lemma lookup_impl_of:
  "(n, state) \<in> set (DAList.impl_of rs) \<Longrightarrow> DAList.lookup rs n = Some state"
  by (simp add: DAList.lookup.rep_eq)

lemma lookup_Some_in_keys:
  "DAList.lookup rs n = Some state \<Longrightarrow> n \<in> set (map fst (DAList.impl_of rs))"
  by (auto simp: DAList.lookup.rep_eq dest: map_of_SomeD intro: rev_image_eqI)

section \<open>Properties of DownloadProvider\<close>

text \<open>
  \<open>set_config_values_as_strings\<close> pops the requirement's variable when a source other
  than \<open>environ\<close> is chosen.
\<close>

lemma set_config_values_pops:
  assumes "DAList.lookup vals ''source'' = Some source" and "source \<noteq> ''environ''"
  shows "DAList.lookup
           (fst (DownloadProvider_set_config_values_as_strings D v env state_store vals)) v = None"
  using assms
  by (simp add: DownloadProvider_set_config_values_as_strings_def split: prod.splits)

text \<open>
  When the event loop cannot be constructed, \<open>_provide_download\<close> raises
  \<open>UnboundLocalError\<close> from its \<open>finally\<close> clause.
\<close>

lemma provide_download_unbound_ioloop:
  assumes "existing_filename (status_analysis context) = None"
    and "DAList.lookup (environ context) ''PROJECT_DIR'' = Some project_dir"
    and "IOLoop_new D = Some e"
  shows "DownloadProvider_provide_download D requirement context =
           Inl (UnboundLocalError ''_ioloop'')"
  using assms by (simp add: DownloadProvider_provide_download_def)

section \<open>Claims about prepare\<close>

text \<open>
  Claim C1. A call of \<open>prepare\<close> changes the caller's environment all or nothing. Whenever
  the call does not return \<open>True\<close> (it returns \<open>False\<close> or raises), the caller's
  environment is the one it passed. When the plan has run and some requirement is still
  unsatisfied in the working copy, the call returns \<open>False\<close> and the environment is
  unchanged; when every requirement is satisfied, it returns \<open>True\<close> and the caller's
  environment then maps every key of the working copy to the copy's value and every
  other key to what it held before.
\<close>

theorem prepare_all_or_nothing:
  "(returned (prepare W proj ui_mode env) \<noteq> Inr True \<longrightarrow>
      caller_environ (prepare W proj ui_mode env) = env) \<and>
   (\<forall>s. prepare_execute W proj ui_mode env = Inr s \<longrightarrow>
      ((\<exists>r\<in>set (requirements proj). why_not_provided r (environ_copy s) \<noteq> None) \<longrightarrow>
         returned (prepare W proj ui_mode env) = Inr False \<and>
         caller_environ (prepare W proj ui_mode env) = env) \<and>
      ((\<forall>r\<in>set (requirements proj). why_not_provided r (environ_copy s) = None) \<longrightarrow>
         returned (prepare W proj ui_mode env) = Inr True \<and>
         (\<forall>key. DAList.lookup (caller_environ (prepare W proj ui_mode env)) key =
            (case DAList.lookup (environ_copy s) key of
               Some v \<Rightarrow> Some v
             | None \<Rightarrow> DAList.lookup env key))))"
proof (cases "prepare_execute W proj ui_mode env")
  case (Inl e)
  then show ?thesis by (simp add: prepare_raised)
next
  case (Inr s)
  show ?thesis
  proof (cases "unmet (requirements proj) (environ_copy s) = []")
    case True
    with Inr show ?thesis
      by (simp add: prepare_returned commit_lookup unmet_empty_iff)
  next
    case False
    with Inr show ?thesis
      by (auto simp add: prepare_returned unmet_empty_iff)
  qed
qed

text \<open>
  The instance: with \<open>FOO\<close> failing the call returns \<open>False\<close> and leaves the environment
  as passed; with \<open>BAR\<close> alone it returns \<open>True\<close> and \<open>BAR\<close> is set for the caller.
\<close>

theorem prepare_all_or_nothing_witness:
  "(\<exists>s. prepare_execute example_world
           (example_project [''FOO'', ''BAR'']) ''not_interactive''
           home_environ = Inr s \<and>
        (\<exists>r\<in>set (requirements (example_project [''FOO'', ''BAR''])).
           why_not_provided r (environ_copy s) \<noteq> None)) \<and>
   returned (prepare example_world
           (example_project [''FOO'', ''BAR'']) ''not_interactive''
           home_environ) = Inr False \<and>
   caller_environ (prepare example_world
           (example_project [''FOO'', ''BAR'']) ''not_interactive''
           home_environ) =
     home_environ \<and>
   (\<exists>s. prepare_execute example_world
           (example_project [''BAR'']) ''not_interactive''
           home_environ = Inr s \<and>
        (\<forall>r\<in>set (requirements (example_project [''BAR''])).
           why_not_provided r (environ_copy s) = None)) \<and>
   returned (prepare example_world
           (example_project [''BAR'']) ''not_interactive''
           home_environ) = Inr True \<and>
   DAList.lookup (caller_environ (prepare example_world
           (example_project [''BAR'']) ''not_interactive''
           home_environ)) ''BAR'' = Some ''1''"
  using prepare_all_or_nothing[of example_world
          "example_project [''FOO'', ''BAR'']" "''not_interactive''"
          home_environ]
        prepare_all_or_nothing[of example_world
          "example_project [''BAR'']" "''not_interactive''"
          home_environ]
  by (simp add: example_defs)

text \<open>
  Claim C2. Once the plan has run, \<open>prepare\<close> evaluates \<open>why_not_provided\<close> in the working
  environment for every requirement of the project, with or without providers. The call
  returns \<open>False\<close> exactly when some requirement has a reason, \<open>True\<close> exactly when none
  has, and for each requirement with a reason it prints, after the provider errors and in
  requirement order, a line with the title followed by a line with the reason.
\<close>

theorem validation_decides_result:
  assumes "prepare_execute W proj ui_mode env = Inr s"
  shows "(returned (prepare W proj ui_mode env) = Inr False \<longleftrightarrow>
            (\<exists>r\<in>set (requirements proj). why_not_provided r (environ_copy s) \<noteq> None)) \<and>
         (returned (prepare W proj ui_mode env) = Inr True \<longleftrightarrow>
            (\<forall>r\<in>set (requirements proj). why_not_provided r (environ_copy s) = None)) \<and>
         printed_stderr (prepare W proj ui_mode env) =
           stderr s @
           concat (map (\<lambda>r. case why_not_provided r (environ_copy s) of
                               None \<Rightarrow> []
                             | Some why_not \<Rightarrow>
                                 [''missing requirement to run this project: '' @ title r,
                                  ''  '' @ why_not])
                       (requirements proj))"
  using assms
  by (auto simp add: prepare_returned unmet_empty_iff unmet_lines_unmet)

text \<open>
  The instance: \<open>FOO\<close> (provider fails) and \<open>QUX\<close> (no provider) stay unmet, \<open>BAR\<close> is
  provided; the call returns \<open>False\<close> and reports both by title and reason.
\<close>

theorem validation_decides_result_witness:
  "(\<exists>s. prepare_execute example_world (example_project [''FOO'', ''QUX'', ''BAR''])
           ''not_interactive'' home_environ = Inr s \<and>
        environ_copy s = DAList.update ''BAR'' ''1'' home_environ \<and> stderr s = [''boom'']) \<and>
   returned (prepare example_world (example_project [''FOO'', ''QUX'', ''BAR''])
      ''not_interactive'' home_environ) = Inr False \<and>
   printed_stderr (prepare example_world (example_project [''FOO'', ''QUX'', ''BAR''])
      ''not_interactive'' home_environ) =
     [''boom'',
      ''missing requirement to run this project: FOO'',
      ''  Environment variable FOO is not set'',
      ''missing requirement to run this project: QUX'',
      ''  Environment variable QUX is not set'']"
proof -
  obtain s where h: "prepare_execute example_world (example_project [''FOO'', ''QUX'', ''BAR''])
      ''not_interactive'' home_environ = Inr s"
    and e: "environ_copy s = DAList.update ''BAR'' ''1'' home_environ" "stderr s = [''boom'']"
    by (simp add: example_defs)
  show ?thesis
    using h e validation_decides_result[OF h]
    by (simp add: example_project_def env_var_requirement_def home_environ_def)
qed

text \<open>
  Claim C3. The plan is the flattening of the \<open>(requirement, providers)\<close> pairs: the
  requirements in declaration order, and for each the providers in resolution order.
  The plan is run in that sequence. Running a plan runs any initial part of it first and
  the rest from the state that part left. A call of \<open>prepare\<close> that gets through its plan
  has run exactly that plan, from the working copy of the caller's environment and the
  configured local state, and its \<open>read_config\<close> and \<open>provide\<close> calls each form, in the order
  made, a subsequence of the plan. In a run that returns, every entry of the plan is
  reached in the state left by exactly the entries before it, and is executed there: when
  its requirement is satisfied the state stays as it is, and otherwise \<open>read_config\<close> and
  then \<open>provide\<close> are called on that state and the context \<open>provide\<close> leaves becomes the
  state for the next entry. A run that raises has run the entries before some entry in
  the same way and raises what the \<open>read_config\<close> or the \<open>provide\<close> of that entry raised.
\<close>

theorem plan_order_preserved:
  "prepare_plan W proj =
     concat (map (\<lambda>r. map (\<lambda>p. (p, r)) (find_providers W r)) (requirements proj)) \<and>
   execute_plan (first_part @ rest) s0 =
     (case execute_plan first_part s0 of Inl e \<Rightarrow> Inl e | Inr s1 \<Rightarrow> execute_plan rest s1) \<and>
   (\<forall>s. prepare_execute W proj ui_mode env = Inr s \<longrightarrow>
      subseq (configs_read (calls s)) (prepare_plan W proj) \<and>
      subseq (provided (calls s)) (prepare_plan W proj) \<and>
      (\<exists>configured.
         configure_prepare W ui_mode
           \<lparr>configure_local_state_file = load_for_directory W (directory_path proj),
            requirements_and_providers =
              map (\<lambda>r. (r, find_providers W r)) (requirements proj)\<rparr> = Inr configured \<and>
         execute_plan (prepare_plan W proj)
           \<lparr>environ_copy = env, local_state = configured,
            stdout = [], stderr = [], calls = []\<rparr> = Inr s)) \<and>
   (\<forall>s. execute_plan pl s0 = Inr s \<longrightarrow>
      (\<forall>i<length pl. \<exists>si.
         execute_plan (take i pl) s0 = Inr si \<and>
         (case pl ! i of (p, r) \<Rightarrow>
            (case why_not_provided r (environ_copy si) of
               None \<Rightarrow> execute_plan (take (Suc i) pl) s0 = Inr si
             | Some why_not \<Rightarrow>
                 (\<exists>cfg context.
                    read_config p (local_state si) r = Inr cfg \<and>
                    provide p r (ProvideContext (environ_copy si) (local_state si) cfg) =
                      Inr context \<and>
                    execute_plan (take (Suc i) pl) s0 =
                      Inr \<lparr>environ_copy = environ context,
                           local_state = local_state_file context,
                           stdout = stdout si @
                             (if errors context \<noteq> [] then logs context else []),
                           stderr = stderr si @ errors context,
                           calls = calls si @
                             [ReadConfigCall p r, ProvideCall p r context]\<rparr>))))) \<and>
   (\<forall>e. execute_plan pl s0 = Inl e \<longrightarrow>
      (\<exists>i<length pl. \<exists>si.
         execute_plan (take i pl) s0 = Inr si \<and>
         (case pl ! i of (p, r) \<Rightarrow>
            why_not_provided r (environ_copy si) \<noteq> None \<and>
            (read_config p (local_state si) r = Inl e \<or>
             (\<exists>cfg. read_config p (local_state si) r = Inr cfg \<and>
                    provide p r (ProvideContext (environ_copy si) (local_state si) cfg) =
                      Inl e)))))"
proof (intro conjI allI impI)
  show "prepare_plan W proj =
     concat (map (\<lambda>r. map (\<lambda>p. (p, r)) (find_providers W r)) (requirements proj))"
    by (rule prepare_plan_eq)
next
  show "execute_plan (first_part @ rest) s0 =
     (case execute_plan first_part s0 of Inl e \<Rightarrow> Inl e | Inr s1 \<Rightarrow> execute_plan rest s1)"
    by (rule execute_plan_append)
next
  fix s assume "prepare_execute W proj ui_mode env = Inr s"
  from prepare_execute_trace[OF this]
  show "subseq (configs_read (calls s)) (prepare_plan W proj)"
    and "subseq (provided (calls s)) (prepare_plan W proj)"
    by simp_all
next
  fix s assume "prepare_execute W proj ui_mode env = Inr s"
  then show "\<exists>configured.
         configure_prepare W ui_mode
           \<lparr>configure_local_state_file = load_for_directory W (directory_path proj),
            requirements_and_providers =
              map (\<lambda>r. (r, find_providers W r)) (requirements proj)\<rparr> = Inr configured \<and>
         execute_plan (prepare_plan W proj)
           \<lparr>environ_copy = env, local_state = configured,
            stdout = [], stderr = [], calls = []\<rparr> = Inr s"
    by (rule prepare_execute_initial)
next
  fix s i assume run: "execute_plan pl s0 = Inr s" and i: "i < length pl"
  obtain p r where entry: "pl ! i = (p, r)" by (cases "pl ! i")
  from execute_plan_reaches[OF run i] obtain si sj where
    a: "execute_plan (take i pl) s0 = Inr si" and
    b: "execute_plan (take (Suc i) pl) s0 = run_entry (pl ! i) si" and
    c: "run_entry (pl ! i) si = Inr sj"
    by blast
  have step: "case why_not_provided r (environ_copy si) of
               None \<Rightarrow> execute_plan (take (Suc i) pl) s0 = Inr si
             | Some why_not \<Rightarrow>
                 (\<exists>cfg context.
                    read_config p (local_state si) r = Inr cfg \<and>
                    provide p r (ProvideContext (environ_copy si) (local_state si) cfg) =
                      Inr context \<and>
                    execute_plan (take (Suc i) pl) s0 =
                      Inr \<lparr>environ_copy = environ context,
                           local_state = local_state_file context,
                           stdout = stdout si @
                             (if errors context \<noteq> [] then logs context else []),
                           stderr = stderr si @ errors context,
                           calls = calls si @
                             [ReadConfigCall p r, ProvideCall p r context]\<rparr>)"
  proof (cases "why_not_provided r (environ_copy si)")
    case None
    with run_entry_returns[of p r si sj] c entry b show ?thesis by simp
  next
    case (Some why_not)
    with run_entry_returns[of p r si sj] c entry obtain cfg cx where
      cfg: "read_config p (local_state si) r = Inr cfg" and
      cx: "provide p r (ProvideContext (environ_copy si) (local_state si) cfg) = Inr cx" and
      sj: "sj = \<lparr>environ_copy = environ cx,
                 local_state = local_state_file cx,
                 stdout = stdout si @ (if errors cx \<noteq> [] then logs cx else []),
                 stderr = stderr si @ errors cx,
                 calls = calls si @ [ReadConfigCall p r, ProvideCall p r cx]\<rparr>"
      by auto
    from b c entry sj have "execute_plan (take (Suc i) pl) s0 =
                      Inr \<lparr>environ_copy = environ cx,
                           local_state = local_state_file cx,
                           stdout = stdout si @ (if errors cx \<noteq> [] then logs cx else []),
                           stderr = stderr si @ errors cx,
                           calls = calls si @ [ReadConfigCall p r, ProvideCall p r cx]\<rparr>"
      by simp
    with Some cfg cx show ?thesis by (simp only: option.case) blast
  qed
  from a entry step show "\<exists>si.
         execute_plan (take i pl) s0 = Inr si \<and>
         (case pl ! i of (p, r) \<Rightarrow>
            (case why_not_provided r (environ_copy si) of
               None \<Rightarrow> execute_plan (take (Suc i) pl) s0 = Inr si
             | Some why_not \<Rightarrow>
                 (\<exists>cfg context.
                    read_config p (local_state si) r = Inr cfg \<and>
                    provide p r (ProvideContext (environ_copy si) (local_state si) cfg) =
                      Inr context \<and>
                    execute_plan (take (Suc i) pl) s0 =
                      Inr \<lparr>environ_copy = environ context,
                           local_state = local_state_file context,
                           stdout = stdout si @
                             (if errors context \<noteq> [] then logs context else []),
                           stderr = stderr si @ errors context,
                           calls = calls si @
                             [ReadConfigCall p r, ProvideCall p r context]\<rparr>)))"
    by (intro exI[of _ si]) (simp only: prod.case simp_thms)
next
  fix e assume "execute_plan pl s0 = Inl e"
  from execute_plan_raises[OF this] obtain i si where
    i: "i < length pl" and a: "execute_plan (take i pl) s0 = Inr si" and
    b: "run_entry (pl ! i) si = Inl e"
    by blast
  obtain p r where entry: "pl ! i = (p, r)" by (cases "pl ! i")
  from run_entry_raises[of p r si e] b entry
  have "why_not_provided r (environ_copy si) \<noteq> None \<and>
            (read_config p (local_state si) r = Inl e \<or>
             (\<exists>cfg. read_config p (local_state si) r = Inr cfg \<and>
                    provide p r (ProvideContext (environ_copy si) (local_state si) cfg) =
                      Inl e))"
    by simp
  with i a entry show "\<exists>i<length pl. \<exists>si.
         execute_plan (take i pl) s0 = Inr si \<and>
         (case pl ! i of (p, r) \<Rightarrow>
            why_not_provided r (environ_copy si) \<noteq> None \<and>
            (read_config p (local_state si) r = Inl e \<or>
             (\<exists>cfg. read_config p (local_state si) r = Inr cfg \<and>
                    provide p r (ProvideContext (environ_copy si) (local_state si) cfg) =
                      Inl e)))"
    by (intro exI[of _ i]) auto
qed

text \<open>
  The instance: three requirements, of which \<open>QUX\<close> has no provider; the plan and the
  \<open>provide\<close> calls are \<open>FOO\<close>'s provider, then \<open>BAR\<close>'s, and the entry of \<open>BAR\<close> is run from the
  state the entry of \<open>FOO\<close> left.
\<close>

theorem plan_order_preserved_witness:
  "prepare_plan example_world (example_project [''FOO'', ''QUX'', ''BAR'']) =
     [(failing_provider ''boom'', env_var_requirement ''FOO''),
      (setting_provider ''1'', env_var_requirement ''BAR'')] \<and>
   (\<exists>s. prepare_execute example_world (example_project [''FOO'', ''QUX'', ''BAR''])
           ''not_interactive'' home_environ = Inr s \<and>
        provided (calls s) =
          [(failing_provider ''boom'', env_var_requirement ''FOO''),
           (setting_provider ''1'', env_var_requirement ''BAR'')] \<and>
        subseq (provided (calls s))
          (prepare_plan example_world (example_project [''FOO'', ''QUX'', ''BAR''])) \<and>
        execute_plan (prepare_plan example_world (example_project [''FOO'', ''QUX'', ''BAR'']))
          (initial_state home_environ) = Inr s) \<and>
   (\<exists>s1. execute_plan
            (take 1 [(failing_provider ''boom'', env_var_requirement ''FOO''),
                     (setting_provider ''1'', env_var_requirement ''BAR'')])
            (initial_state home_environ) = Inr s1 \<and>
         why_not_provided (env_var_requirement ''BAR'') (environ_copy s1) \<noteq> None \<and>
         (\<exists>cfg c. read_config (setting_provider ''1'') (local_state s1)
                      (env_var_requirement ''BAR'') = Inr cfg \<and>
                  provide (setting_provider ''1'') (env_var_requirement ''BAR'')
                      (ProvideContext (environ_copy s1) (local_state s1) cfg) = Inr c \<and>
                  execute_plan
                    (take (Suc 1) [(failing_provider ''boom'', env_var_requirement ''FOO''),
                                   (setting_provider ''1'', env_var_requirement ''BAR'')])
                    (initial_state home_environ) =
                    Inr \<lparr>environ_copy = environ c,
                         local_state = local_state_file c,
                         stdout = stdout s1 @ (if errors c \<noteq> [] then logs c else []),
                         stderr = stderr s1 @ errors c,
                         calls = calls s1 @
                           [ReadConfigCall (setting_provider ''1'') (env_var_requirement ''BAR''),
                            ProvideCall (setting_provider ''1'') (env_var_requirement ''BAR'') c]\<rparr>))"
proof -
  let ?pl = "[(failing_provider ''boom'', env_var_requirement ''FOO''),
              (setting_provider ''1'', env_var_requirement ''BAR'')]"
  have p: "prepare_plan example_world (example_project [''FOO'', ''QUX'', ''BAR'']) = ?pl"
    by (simp add: prepare_plan_def example_world_def example_collaborators_def
          example_project_def example_resolve_def env_var_requirement_def)
  obtain s where h: "prepare_execute example_world (example_project [''FOO'', ''QUX'', ''BAR''])
      ''not_interactive'' home_environ = Inr s"
    and c: "provided (calls s) = ?pl"
    and run: "execute_plan ?pl (initial_state home_environ) = Inr s"
    by (simp add: example_defs)
  note inst = plan_order_preserved[where W = example_world
      and proj = "example_project [''FOO'', ''QUX'', ''BAR'']"
      and ui_mode = "''not_interactive''" and env = home_environ
      and pl = ?pl and ?s0.0 = "initial_state home_environ"]
  note prep = inst[THEN conjunct2, THEN conjunct2, THEN conjunct1, rule_format, OF h]
  from prep have sub: "subseq (provided (calls s))
          (prepare_plan example_world (example_project [''FOO'', ''QUX'', ''BAR'']))"
    by (elim conjE)
  from run p have whole: "execute_plan
        (prepare_plan example_world (example_project [''FOO'', ''QUX'', ''BAR'']))
        (initial_state home_environ) = Inr s"
    by (simp only:)
  have i: "1 < length ?pl" by simp
  note steps = inst[THEN conjunct2, THEN conjunct2, THEN conjunct2, THEN conjunct1,
      rule_format, OF run i]
  from steps obtain s1 where
    s1: "execute_plan (take 1 ?pl) (initial_state home_environ) = Inr s1" and
    st: "case ?pl ! 1 of (p, r) \<Rightarrow>
            (case why_not_provided r (environ_copy s1) of
               None \<Rightarrow> execute_plan (take (Suc 1) ?pl) (initial_state home_environ) = Inr s1
             | Some why_not \<Rightarrow>
                 (\<exists>cfg context.
                    read_config p (local_state s1) r = Inr cfg \<and>
                    provide p r (ProvideContext (environ_copy s1) (local_state s1) cfg) =
                      Inr context \<and>
                    execute_plan (take (Suc 1) ?pl) (initial_state home_environ) =
                      Inr \<lparr>environ_copy = environ context,
                           local_state = local_state_file context,
                           stdout = stdout s1 @
                             (if errors context \<noteq> [] then logs context else []),
                           stderr = stderr s1 @ errors context,
                           calls = calls s1 @
                             [ReadConfigCall p r, ProvideCall p r context]\<rparr>))"
    by (elim exE conjE)
  from s1 have e1: "environ_copy s1 = home_environ"
    by (simp add: example_defs) (erule subst, simp)
  have unsat: "why_not_provided (env_var_requirement ''BAR'') (environ_copy s1) \<noteq> None"
    unfolding e1 by (simp add: env_var_requirement_def home_environ_def)
  from st unsat have step: "\<exists>cfg c. read_config (setting_provider ''1'') (local_state s1)
                      (env_var_requirement ''BAR'') = Inr cfg \<and>
                  provide (setting_provider ''1'') (env_var_requirement ''BAR'')
                      (ProvideContext (environ_copy s1) (local_state s1) cfg) = Inr c \<and>
                  execute_plan (take (Suc 1) ?pl) (initial_state home_environ) =
                    Inr \<lparr>environ_copy = environ c,
                         local_state = local_state_file c,
                         stdout = stdout s1 @ (if errors c \<noteq> [] then logs c else []),
                         stderr = stderr s1 @ errors c,
                         calls = calls s1 @
                           [ReadConfigCall (setting_provider ''1'') (env_var_requirement ''BAR''),
                            ProvideCall (setting_provider ''1'') (env_var_requirement ''BAR'') c]\<rparr>"
    by (cases "why_not_provided (env_var_requirement ''BAR'') (environ_copy s1)")
       (simp_all only: nth_Cons_0 nth_Cons_Suc One_nat_def prod.case option.case simp_thms)
  have first: "prepare_plan example_world (example_project [''FOO'', ''QUX'', ''BAR'']) = ?pl"
    by (rule p)
  have second: "\<exists>s. prepare_execute example_world (example_project [''FOO'', ''QUX'', ''BAR''])
           ''not_interactive'' home_environ = Inr s \<and>
        provided (calls s) = ?pl \<and>
        subseq (provided (calls s))
          (prepare_plan example_world (example_project [''FOO'', ''QUX'', ''BAR''])) \<and>
        execute_plan (prepare_plan example_world (example_project [''FOO'', ''QUX'', ''BAR'']))
          (initial_state home_environ) = Inr s"
    using h c sub whole by (intro exI[of _ s] conjI)
  have third: "\<exists>s1. execute_plan (take 1 ?pl) (initial_state home_environ) = Inr s1 \<and>
         why_not_provided (env_var_requirement ''BAR'') (environ_copy s1) \<noteq> None \<and>
         (\<exists>cfg c. read_config (setting_provider ''1'') (local_state s1)
                      (env_var_requirement ''BAR'') = Inr cfg \<and>
                  provide (setting_provider ''1'') (env_var_requirement ''BAR'')
                      (ProvideContext (environ_copy s1) (local_state s1) cfg) = Inr c \<and>
                  execute_plan (take (Suc 1) ?pl) (initial_state home_environ) =
                    Inr \<lparr>environ_copy = environ c,
                         local_state = local_state_file c,
                         stdout = stdout s1 @ (if errors c \<noteq> [] then logs c else []),
                         stderr = stderr s1 @ errors c,
                         calls = calls s1 @
                           [ReadConfigCall (setting_provider ''1'') (env_var_requirement ''BAR''),
                            ProvideCall (setting_provider ''1'') (env_var_requirement ''BAR'') c]\<rparr>)"
    using s1 unsat step by (intro exI[of _ s1] conjI)
  from first second third show ?thesis by (intro conjI)
qed

text \<open>
  Claim C4. A plan entry whose requirement is satisfied in the working environment when
  the entry is reached leaves the state of \<open>prepare\<close> as it was: no \<open>read_config\<close> and no
  \<open>provide\<close> call is made for it. So a call of \<open>prepare\<close> on an environment in which every
  requirement is already satisfied makes no provider call at all.
\<close>

theorem satisfied_entry_skipped:
  "(why_not_provided r (environ_copy s) = None \<longrightarrow> run_entry (p, r) s = Inr s) \<and>
   ((\<forall>r\<in>set (requirements proj). why_not_provided r env = None) \<longrightarrow>
      provider_calls (prepare W proj ui_mode env) = [])"
proof (intro conjI impI)
  assume "why_not_provided r (environ_copy s) = None"
  then show "run_entry (p, r) s = Inr s" by (rule run_entry_satisfied)
next
  assume sat: "\<forall>r\<in>set (requirements proj). why_not_provided r env = None"
  show "provider_calls (prepare W proj ui_mode env) = []"
  proof (cases "prepare_execute W proj ui_mode env")
    case (Inl e)
    then show ?thesis by (simp add: prepare_raised)
  next
    case (Inr s')
    then obtain s0 where
      run: "execute_plan (prepare_plan W proj) s0 = Inr s'" and
      init: "calls s0 = []" "environ_copy s0 = env"
      by (auto simp: prepare_execute_def prepare_plan_def Let_def split: if_splits sum.splits)
    have "\<forall>(p, r)\<in>set (prepare_plan W proj). why_not_provided r (environ_copy s0) = None"
      using sat init(2) by (auto dest: prepare_plan_requirements)
    then have "execute_plan (prepare_plan W proj) s0 = Inr s0"
      by (rule execute_plan_satisfied)
    with run init(1) have "calls s' = []" by simp
    with Inr show ?thesis by (simp add: prepare_returned)
  qed
qed

text \<open>
  The instance: the first run provides \<open>BAR\<close> with one \<open>provide\<close> call and merges it; the
  second run, on the merged environment, makes no provider call.
\<close>

theorem satisfied_entry_skipped_witness:
  "why_not_provided (env_var_requirement ''BAR'')
      (environ_copy (initial_state (DAList.update ''BAR'' ''1'' home_environ))) = None \<and>
   run_entry (setting_provider ''1'', env_var_requirement ''BAR'')
      (initial_state (DAList.update ''BAR'' ''1'' home_environ)) =
     Inr (initial_state (DAList.update ''BAR'' ''1'' home_environ)) \<and>
   returned (prepare example_world (example_project [''BAR'']) ''not_interactive'' home_environ) =
     Inr True \<and>
   caller_environ (prepare example_world (example_project [''BAR'']) ''not_interactive''
      home_environ) = DAList.update ''BAR'' ''1'' home_environ \<and>
   length (provided (provider_calls (prepare example_world (example_project [''BAR''])
      ''not_interactive'' home_environ))) = 1 \<and>
   requirements (example_project [''BAR'']) = [env_var_requirement ''BAR''] \<and>
   why_not_provided (env_var_requirement ''BAR'') (DAList.update ''BAR'' ''1'' home_environ) =
     None \<and>
   provider_calls (prepare example_world (example_project [''BAR'']) ''not_interactive''
      (DAList.update ''BAR'' ''1'' home_environ)) = []"
proof -
  have first: "returned (prepare example_world (example_project [''BAR'']) ''not_interactive''
        home_environ) = Inr True \<and>
     caller_environ (prepare example_world (example_project [''BAR'']) ''not_interactive''
        home_environ) = DAList.update ''BAR'' ''1'' home_environ \<and>
     length (provided (provider_calls (prepare example_world (example_project [''BAR''])
        ''not_interactive'' home_environ))) = 1"
    by (simp add: example_defs alist_rep)
  have reqs: "requirements (example_project [''BAR'']) = [env_var_requirement ''BAR'']"
    by (simp add: example_project_def)
  have one: "why_not_provided (env_var_requirement ''BAR'')
      (DAList.update ''BAR'' ''1'' home_environ) = None"
    by (simp add: env_var_requirement_def)
  have here: "why_not_provided (env_var_requirement ''BAR'')
      (environ_copy (initial_state (DAList.update ''BAR'' ''1'' home_environ))) = None"
    by (simp add: env_var_requirement_def initial_state_def)
  have sat: "\<forall>r\<in>set (requirements (example_project [''BAR''])).
      why_not_provided r (DAList.update ''BAR'' ''1'' home_environ) = None"
    using reqs one by simp
  note inst = satisfied_entry_skipped[of "env_var_requirement ''BAR''"
         "initial_state (DAList.update ''BAR'' ''1'' home_environ)" "setting_provider ''1''"
         "example_project [''BAR'']" "DAList.update ''BAR'' ''1'' home_environ"
         example_world "''not_interactive''"]
  from inst here
  have skip: "run_entry (setting_provider ''1'', env_var_requirement ''BAR'')
      (initial_state (DAList.update ''BAR'' ''1'' home_environ)) =
     Inr (initial_state (DAList.update ''BAR'' ''1'' home_environ))"
    by blast
  from inst sat
  have "provider_calls (prepare example_world (example_project [''BAR'']) ''not_interactive''
      (DAList.update ''BAR'' ''1'' home_environ)) = []"
    by blast
  with first reqs one here skip show ?thesis by blast
qed

text \<open>
  Claim C5. After the entries before it have run, an entry that completes is followed by
  the rest of the plan, run from the state the entry left. An entry whose requirement is
  unsatisfied and whose provider calls return completes whatever the provider recorded in
  \<open>context.errors\<close>: the errors are printed (after the logs, when there are errors) and
  the loop goes on.
\<close>

theorem errors_do_not_stop_the_plan:
  assumes "execute_plan before s = Inr s1"
  shows "(\<forall>s2. run_entry entry s1 = Inr s2 \<longrightarrow>
            execute_plan (before @ entry # later) s = execute_plan later s2) \<and>
         (\<forall>why_not cfg context.
            why_not_provided r (environ_copy s1) = Some why_not \<and>
            read_config p (local_state s1) r = Inr cfg \<and>
            provide p r (ProvideContext (environ_copy s1) (local_state s1) cfg) = Inr context \<longrightarrow>
            run_entry (p, r) s1 =
              Inr \<lparr>environ_copy = environ context,
                   local_state = local_state_file context,
                   stdout = stdout s1 @ (if errors context \<noteq> [] then logs context else []),
                   stderr = stderr s1 @ errors context,
                   calls = calls s1 @ [ReadConfigCall p r, ProvideCall p r context]\<rparr>)"
  using assms by (auto simp add: execute_plan_append run_entry_def)

text \<open>
  The instance: the provider of \<open>FOO\<close> records an error; the provider of \<open>BAR\<close>, declared
  after it, still runs and sets \<open>BAR\<close>.
\<close>

theorem errors_do_not_stop_the_plan_witness:
  "execute_plan [] (initial_state home_environ) = Inr (initial_state home_environ) \<and>
   (\<exists>s2. run_entry (failing_provider ''boom'', env_var_requirement ''FOO'')
            (initial_state home_environ) = Inr s2 \<and>
          stderr s2 = [''boom''] \<and>
          execute_plan ([] @ (failing_provider ''boom'', env_var_requirement ''FOO'') #
                         [(setting_provider ''1'', env_var_requirement ''BAR'')])
            (initial_state home_environ) =
          execute_plan [(setting_provider ''1'', env_var_requirement ''BAR'')] s2 \<and>
          (\<exists>s3. execute_plan [(setting_provider ''1'', env_var_requirement ''BAR'')] s2 = Inr s3 \<and>
                 DAList.lookup (environ_copy s3) ''BAR'' = Some ''1'' \<and>
                 provided (calls s3) =
                   [(failing_provider ''boom'', env_var_requirement ''FOO''),
                    (setting_provider ''1'', env_var_requirement ''BAR'')]))"
proof -
  have h: "execute_plan [] (initial_state home_environ) = Inr (initial_state home_environ)"
    by simp
  obtain s2 where r: "run_entry (failing_provider ''boom'', env_var_requirement ''FOO'')
            (initial_state home_environ) = Inr s2"
    and e: "stderr s2 = [''boom'']"
    and n: "\<exists>s3. execute_plan [(setting_provider ''1'', env_var_requirement ''BAR'')] s2 = Inr s3 \<and>
                 DAList.lookup (environ_copy s3) ''BAR'' = Some ''1'' \<and>
                 provided (calls s3) =
                   [(failing_provider ''boom'', env_var_requirement ''FOO''),
                    (setting_provider ''1'', env_var_requirement ''BAR'')]"
    by (simp add: example_defs initial_state_def)
  from errors_do_not_stop_the_plan[OF h, of "(failing_provider ''boom'', env_var_requirement ''FOO'')"
         "[(setting_provider ''1'', env_var_requirement ''BAR'')]"] r
  have "execute_plan ([] @ (failing_provider ''boom'', env_var_requirement ''FOO'') #
                         [(setting_provider ''1'', env_var_requirement ''BAR'')])
            (initial_state home_environ) =
          execute_plan [(setting_provider ''1'', env_var_requirement ''BAR'')] s2"
    by blast
  with h r e n show ?thesis by blast
qed

text \<open>
  Claim C6. The mode \<open>text\<close> is one of the three recognised modes, so it passes the check at
  call entry; \<open>_configure_prepare\<close> has no branch for it, and the call raises
  \<open>UnboundLocalError\<close> for every project and environment instead of completing the
  configure step.
\<close>

theorem text_mode_raises:
  "UI_MODE_TEXT \<in> set all_ui_modes \<and>
   returned (prepare W proj UI_MODE_TEXT env) = Inl (UnboundLocalError ''ui'') \<and>
   caller_environ (prepare W proj UI_MODE_TEXT env) = env"
  by (simp add: prepare_def prepare_execute_def configure_prepare_def all_ui_modes_def
        UI_MODE_TEXT_def UI_MODE_BROWSER_def UI_MODE_NOT_INTERACTIVE_def)

text \<open>
  Claim C7, as amended. A call of \<open>prepare\<close> that returns returns only a boolean: \<open>True\<close>
  exactly when no requirement is still unmet. The still-unmet requirements are not
  returned; they are printed on stderr, title line and reason line, after the errors the
  providers recorded, and stdout holds the logs of the provider calls that recorded
  errors.
\<close>

theorem result_is_flag_only:
  assumes "prepare_execute W proj ui_mode env = Inr s"
  shows "returned (prepare W proj ui_mode env) =
           Inr (still_unmet W proj ui_mode env = []) \<and>
         printed_stderr (prepare W proj ui_mode env) =
           concat (map call_errors (provider_calls (prepare W proj ui_mode env))) @
           unmet_lines (still_unmet W proj ui_mode env) \<and>
         printed_stdout (prepare W proj ui_mode env) =
           concat (map call_logs (provider_calls (prepare W proj ui_mode env)))"
  using assms prepare_execute_trace[OF assms]
  by (simp add: prepare_returned still_unmet_def)

text \<open>
  The counterexample to C7 as stated: two calls that return the same value although
  their lists of still-unmet requirements differ, so the returned value does not carry
  that list; only the printed lines tell them apart.
\<close>

theorem result_is_flag_only_counterexample:
  "returned (prepare example_world (example_project [''QUX'']) ''not_interactive'' home_environ) =
   returned (prepare example_world (example_project [''FOO'']) ''not_interactive'' home_environ) \<and>
   still_unmet example_world (example_project [''QUX'']) ''not_interactive'' home_environ =
     [(''QUX'', ''Environment variable QUX is not set'')] \<and>
   still_unmet example_world (example_project [''FOO'']) ''not_interactive'' home_environ =
     [(''FOO'', ''Environment variable FOO is not set'')] \<and>
   printed_stderr (prepare example_world (example_project [''QUX'']) ''not_interactive''
     home_environ) \<noteq>
   printed_stderr (prepare example_world (example_project [''FOO'']) ''not_interactive''
     home_environ)"
  by (simp add: example_defs still_unmet_def unmet_def)

text \<open>
  The instance: \<open>FOO\<close> fails and \<open>BAR\<close> is provided; the call returns \<open>False\<close> and the
  unmet requirement is found in the printed lines.
\<close>

theorem result_is_flag_only_witness:
  "(\<exists>s. prepare_execute example_world (example_project [''FOO'', ''BAR''])
           ''not_interactive'' home_environ = Inr s) \<and>
   returned (prepare example_world (example_project [''FOO'', ''BAR''])
      ''not_interactive'' home_environ) = Inr False \<and>
   still_unmet example_world (example_project [''FOO'', ''BAR''])
      ''not_interactive'' home_environ = [(''FOO'', ''Environment variable FOO is not set'')] \<and>
   printed_stderr (prepare example_world (example_project [''FOO'', ''BAR''])
      ''not_interactive'' home_environ) =
     [''boom'', ''missing requirement to run this project: FOO'',
      ''  Environment variable FOO is not set''] \<and>
   printed_stdout (prepare example_world (example_project [''FOO'', ''BAR''])
      ''not_interactive'' home_environ) = [''trying'']"
proof -
  obtain s where h: "prepare_execute example_world (example_project [''FOO'', ''BAR''])
           ''not_interactive'' home_environ = Inr s"
    by (simp add: example_defs)
  have u: "still_unmet example_world (example_project [''FOO'', ''BAR''])
      ''not_interactive'' home_environ = [(''FOO'', ''Environment variable FOO is not set'')]"
    by (simp add: example_defs still_unmet_def unmet_def)
  have c: "concat (map call_errors (provider_calls (prepare example_world
             (example_project [''FOO'', ''BAR'']) ''not_interactive'' home_environ))) = [''boom'']"
          "concat (map call_logs (provider_calls (prepare example_world
             (example_project [''FOO'', ''BAR'']) ''not_interactive'' home_environ))) = [''trying'']"
    by (simp_all add: example_defs)
  show ?thesis
    using h u c result_is_flag_only[OF h]
    by (simp add: unmet_lines_def)
qed

section \<open>Claims about unprepare\<close>

text \<open>
  Claim C8, as amended. When every recorded shutdown command can be started (so that
  \<open>subprocess.call\<close> returns an exit status, zero or not), \<open>unprepare\<close> returns, having run
  the recorded shutdown commands of all services in recorded order: the commands run, and
  the lines printed, a \<open>Running\<close> line and a line with the exit status that
  \<open>subprocess.call\<close> returned for each, are those of all services in that order. Every
  service that had a run-state entry then has the empty run state, in memory and in what
  was last saved.
\<close>

theorem unprepare_clears_run_states:
  assumes "\<forall>(service_name, state) \<in>
              set (DAList.impl_of (get_all_service_run_states
                                    (load_for_directory W (directory_path proj)))).
             \<forall>cmd\<in>set (shutdown_commands_of state). \<exists>code. subprocess_call P cmd = Inr code"
  shows "\<exists>u. unprepare W P proj = Inr u \<and>
           commands_run u =
             concat (map (\<lambda>(service_name, state). shutdown_commands_of state)
                       (DAList.impl_of (get_all_service_run_states
                                         (load_for_directory W (directory_path proj))))) \<and>
           printed u =
             concat (map (\<lambda>cmd. case subprocess_call P cmd of
                                   Inl e \<Rightarrow> []
                                 | Inr code \<Rightarrow> [''Running '' @ repr P cmd,
                                                ''  exited with '' @ str_int code])
                       (concat (map (\<lambda>(service_name, state). shutdown_commands_of state)
                          (DAList.impl_of (get_all_service_run_states
                                            (load_for_directory W (directory_path proj))))))) \<and>
           (\<forall>service_name.
              DAList.lookup (get_all_service_run_states
                               (load_for_directory W (directory_path proj))) service_name \<noteq> None \<longrightarrow>
              DAList.lookup (service_run_states (state_file u)) service_name = Some DAList.empty \<and>
              DAList.lookup (persisted_run_states (state_file u)) service_name = Some DAList.empty)"
proof -
  let ?loaded = "load_for_directory W (directory_path proj)"
  let ?rs = "service_run_states ?loaded"
  let ?u0 = "\<lparr>state_file = ?loaded, printed = [], commands_run = []\<rparr>"
  let ?names = "map fst (DAList.impl_of ?rs)"
  let ?all = "concat (map (\<lambda>(service_name, state). shutdown_commands_of state) (DAList.impl_of ?rs))"
  have d: "distinct ?names" by simp
  have pre: "\<forall>n\<in>set ?names. \<exists>state. DAList.lookup (service_run_states (state_file ?u0)) n = Some state \<and>
           (\<forall>cmd\<in>set (shutdown_commands_of state). \<exists>code. subprocess_call P cmd = Inr code)"
  proof
    fix n assume "n \<in> set ?names"
    then obtain state where m: "(n, state) \<in> set (DAList.impl_of ?rs)" by auto
    with assms have "\<forall>cmd\<in>set (shutdown_commands_of state). \<exists>code. subprocess_call P cmd = Inr code"
      by (auto simp: get_all_service_run_states_def)
    with lookup_impl_of[OF m]
    show "\<exists>state. DAList.lookup (service_run_states (state_file ?u0)) n = Some state \<and>
           (\<forall>cmd\<in>set (shutdown_commands_of state). \<exists>code. subprocess_call P cmd = Inr code)"
      by simp
  qed
  from unprepare_services_returns[OF d pre] obtain u where
    run: "unprepare_services P ?names ?u0 = Inr u" and
    cr: "commands_run u = commands_run ?u0 @
            concat (map (\<lambda>n. shutdown_commands_of
                                (the (DAList.lookup (service_run_states (state_file ?u0)) n))) ?names)" and
    pr: "printed u = printed ?u0 @
            concat (map (shutdown_lines P)
              (concat (map (\<lambda>n. shutdown_commands_of
                                (the (DAList.lookup (service_run_states (state_file ?u0)) n))) ?names)))" and
    lk: "\<forall>n. DAList.lookup (service_run_states (state_file u)) n =
                 (if n \<in> set ?names then Some DAList.empty
                  else DAList.lookup (service_run_states (state_file ?u0)) n)" and
    ps: "persisted_run_states (state_file u) =
            (if ?names = [] then persisted_run_states (state_file ?u0)
             else service_run_states (state_file u))"
    by blast
  have u: "unprepare W P proj = Inr u"
    using run by (simp add: unprepare_def get_all_service_run_states_def)
  have "\<And>x. x \<in> set (DAList.impl_of ?rs) \<Longrightarrow>
          shutdown_commands_of (the (DAList.lookup ?rs (fst x))) =
          (case x of (service_name, state) \<Rightarrow> shutdown_commands_of state)"
    by (auto simp: lookup_impl_of)
  then have m: "map (\<lambda>n. shutdown_commands_of (the (DAList.lookup ?rs n))) ?names =
        map (\<lambda>(service_name, state). shutdown_commands_of state) (DAList.impl_of ?rs)"
    unfolding map_map comp_def by (intro map_cong) simp_all
  have c: "commands_run u = ?all"
    unfolding cr by (simp only: unprepare_state.simps append_Nil m)
  have p0: "printed u = concat (map (shutdown_lines P) ?all)"
    unfolding pr by (simp only: unprepare_state.simps append_Nil m)
  have every: "\<forall>cmd\<in>set ?all. \<exists>code. subprocess_call P cmd = Inr code"
    using assms by (fastforce simp: get_all_service_run_states_def)
  have "map (shutdown_lines P) ?all =
        map (\<lambda>cmd. case subprocess_call P cmd of
                      Inl e \<Rightarrow> []
                    | Inr code \<Rightarrow> [''Running '' @ repr P cmd, ''  exited with '' @ str_int code])
            ?all"
  proof (rule map_cong[OF refl])
    fix cmd assume "cmd \<in> set ?all"
    with every obtain code where "subprocess_call P cmd = Inr code" by blast
    then show "shutdown_lines P cmd =
        (case subprocess_call P cmd of
           Inl e \<Rightarrow> []
         | Inr code \<Rightarrow> [''Running '' @ repr P cmd, ''  exited with '' @ str_int code])"
      by (simp add: shutdown_lines_def)
  qed
  with p0 have p: "printed u =
        concat (map (\<lambda>cmd. case subprocess_call P cmd of
                      Inl e \<Rightarrow> []
                    | Inr code \<Rightarrow> [''Running '' @ repr P cmd, ''  exited with '' @ str_int code])
            ?all)"
    by (simp only:)
  have l: "\<forall>service_name. DAList.lookup ?rs service_name \<noteq> None \<longrightarrow>
              DAList.lookup (service_run_states (state_file u)) service_name = Some DAList.empty \<and>
              DAList.lookup (persisted_run_states (state_file u)) service_name = Some DAList.empty"
  proof (intro allI impI)
    fix n assume "DAList.lookup ?rs n \<noteq> None"
    then have mem: "n \<in> set ?names" by (auto dest: lookup_Some_in_keys)
    then have ne: "?names \<noteq> []" by auto
    from lk mem have a: "DAList.lookup (service_run_states (state_file u)) n = Some DAList.empty"
      by simp
    from ps ne have "persisted_run_states (state_file u) = service_run_states (state_file u)"
      by simp
    with a show "DAList.lookup (service_run_states (state_file u)) n = Some DAList.empty \<and>
              DAList.lookup (persisted_run_states (state_file u)) n = Some DAList.empty"
      by simp
  qed
  from u c p l show ?thesis by (simp only: get_all_service_run_states_def) blast
qed

text \<open>
  The counterexample to C8 as stated: the first shutdown command of \<open>db\<close> cannot be
  started, \<open>subprocess.call\<close> raises, and the exception leaves \<open>unprepare\<close> after the
  \<open>Running\<close> line: the run state of \<open>db\<close> is still the recorded one, nothing has been
  saved, and no later command has run.
\<close>

theorem unprepare_aborts_counterexample:
  "DAList.lookup (get_all_service_run_states services_state) ''db'' =
     Some (DAList.update ''shutdown_commands'' [[''stop-db''], [''rm'', ''pid'']] DAList.empty) \<and>
   subprocess_call missing_program_runner [''stop-db''] =
     Inl (OSError ''No such file or directory'') \<and>
   unprepare (example_collaborators example_resolve services_state) missing_program_runner
       (example_project []) =
     Inl (OSError ''No such file or directory'',
          \<lparr>state_file = services_state, printed = [''Running stop-db''], commands_run = []\<rparr>) \<and>
   DAList.lookup (service_run_states services_state) ''db'' \<noteq> Some DAList.empty \<and>
   persisted_run_states services_state = DAList.empty"
  by (simp add: unprepare_def example_collaborators_def example_project_def services_state_def
        missing_program_runner_def get_all_service_run_states_def alist_rep
        DAList.alist_eq_iff)

text \<open>
  The instance: \<open>stop-db\<close> exits with status 1; the command after it and the command of
  the next service still run, and all three run states are cleared and saved.
\<close>

theorem unprepare_clears_run_states_witness:
  "map fst (DAList.impl_of (get_all_service_run_states
     (load_for_directory (example_collaborators example_resolve services_state)
        (directory_path (example_project []))))) = [''db'', ''cache'', ''web''] \<and>
   subprocess_call example_runner [''stop-db''] = Inr 1 \<and>
   subprocess_call example_runner [''rm'', ''pid''] = Inr 0 \<and>
   subprocess_call example_runner [''kill'', ''web''] = Inr 0 \<and>
   (\<exists>u. unprepare (example_collaborators example_resolve services_state) example_runner
           (example_project []) = Inr u \<and>
        commands_run u = [[''stop-db''], [''rm'', ''pid''], [''kill'', ''web'']] \<and>
        printed u = [''Running stop-db'', ''  exited with 1'',
                     ''Running rmpid'', ''  exited with 0'',
                     ''Running killweb'', ''  exited with 0''] \<and>
        DAList.lookup (service_run_states (state_file u)) ''db'' = Some DAList.empty \<and>
        DAList.lookup (persisted_run_states (state_file u)) ''db'' = Some DAList.empty \<and>
        DAList.lookup (persisted_run_states (state_file u)) ''cache'' = Some DAList.empty \<and>
        DAList.lookup (persisted_run_states (state_file u)) ''web'' = Some DAList.empty)"
proof -
  have h: "\<forall>(service_name, state) \<in>
        set (DAList.impl_of (get_all_service_run_states
               (load_for_directory (example_collaborators example_resolve services_state)
                  (directory_path (example_project []))))).
      \<forall>cmd\<in>set (shutdown_commands_of state).
        \<exists>code. subprocess_call example_runner cmd = Inr code"
    by (simp add: example_runner_def)
  have n: "map fst (DAList.impl_of (get_all_service_run_states
     (load_for_directory (example_collaborators example_resolve services_state)
        (directory_path (example_project []))))) = [''db'', ''cache'', ''web'']"
    by (simp add: example_collaborators_def services_state_def get_all_service_run_states_def
          alist_rep)
  have c: "concat (map (\<lambda>(service_name, state). shutdown_commands_of state)
             (DAList.impl_of (get_all_service_run_states
               (load_for_directory (example_collaborators example_resolve services_state)
                  (directory_path (example_project [])))))) =
           [[''stop-db''], [''rm'', ''pid''], [''kill'', ''web'']]"
    by (simp add: example_collaborators_def services_state_def get_all_service_run_states_def
          shutdown_commands_of_def alist_rep)
  have l: "DAList.lookup (get_all_service_run_states
               (load_for_directory (example_collaborators example_resolve services_state)
                  (directory_path (example_project [])))) ''db'' \<noteq> None"
      "DAList.lookup (get_all_service_run_states
               (load_for_directory (example_collaborators example_resolve services_state)
                  (directory_path (example_project [])))) ''cache'' \<noteq> None"
      "DAList.lookup (get_all_service_run_states
               (load_for_directory (example_collaborators example_resolve services_state)
                  (directory_path (example_project [])))) ''web'' \<noteq> None"
    by (simp_all add: example_collaborators_def services_state_def get_all_service_run_states_def)
  have r: "subprocess_call example_runner [''stop-db''] = Inr 1"
      "subprocess_call example_runner [''rm'', ''pid''] = Inr 0"
      "subprocess_call example_runner [''kill'', ''web''] = Inr 0"
    by (simp_all add: example_runner_def)
  have lines: "concat (map (\<lambda>cmd. case subprocess_call example_runner cmd of
                                   Inl e \<Rightarrow> []
                                 | Inr code \<Rightarrow> [''Running '' @ repr example_runner cmd,
                                                ''  exited with '' @ str_int code])
                 [[''stop-db''], [''rm'', ''pid''], [''kill'', ''web'']]) =
        [''Running stop-db'', ''  exited with 1'',
         ''Running rmpid'', ''  exited with 0'',
         ''Running killweb'', ''  exited with 0'']"
    by (simp add: example_runner_def str_int_def str_nat.simps)
  from unprepare_clears_run_states[OF h] obtain u where
    u: "unprepare (example_collaborators example_resolve services_state) example_runner
           (example_project []) = Inr u"
       "commands_run u = concat (map (\<lambda>(service_name, state). shutdown_commands_of state)
             (DAList.impl_of (get_all_service_run_states
               (load_for_directory (example_collaborators example_resolve services_state)
                  (directory_path (example_project []))))))"
       "printed u = concat (map (\<lambda>cmd. case subprocess_call example_runner cmd of
                                   Inl e \<Rightarrow> []
                                 | Inr code \<Rightarrow> [''Running '' @ repr example_runner cmd,
                                                ''  exited with '' @ str_int code])
                       (concat (map (\<lambda>(service_name, state). shutdown_commands_of state)
                          (DAList.impl_of (get_all_service_run_states
               (load_for_directory (example_collaborators example_resolve services_state)
                  (directory_path (example_project []))))))))"
       "\<forall>service_name.
              DAList.lookup (get_all_service_run_states
               (load_for_directory (example_collaborators example_resolve services_state)
                  (directory_path (example_project [])))) service_name \<noteq> None \<longrightarrow>
              DAList.lookup (service_run_states (state_file u)) service_name = Some DAList.empty \<and>
              DAList.lookup (persisted_run_states (state_file u)) service_name = Some DAList.empty"
    by blast
  from u(2) c have c': "commands_run u = [[''stop-db''], [''rm'', ''pid''], [''kill'', ''web'']]"
    by (simp only:)
  from u(3) c lines have p': "printed u = [''Running stop-db'', ''  exited with 1'',
         ''Running rmpid'', ''  exited with 0'',
         ''Running killweb'', ''  exited with 0'']"
    by (simp only:)
  from u(1) c' p' u(4) l n r show ?thesis by blast
qed

section \<open>Claims about DownloadProvider\<close>

text \<open>
  Claim C9, as amended. Take a context not in check mode on which the superclass's
  \<open>provide\<close> returned, whose config has a \<open>source\<close> whenever the requirement's variable is
  set, and for which, whenever no previously downloaded file is known, the environment
  has \<open>PROJECT_DIR\<close> and the event loop of the download is constructed and closed without
  an exception. Then \<open>DownloadProvider.provide\<close> returns. When a download is wanted, a
  response code other than 200 or an exception of the download appends one message to
  \<open>context.errors\<close> and leaves \<open>context.environ\<close> as it was, and a previously downloaded file
  or a response code 200 sets the requirement's variable to the filename, with no error
  added. When no download is wanted the context is left as it was.
\<close>

theorem download_provide_reports_failures:
  assumes "EnvVarProvider_provide D requirement context = Inr context1"
    and "mode context1 \<noteq> PROVIDE_MODE_CHECK"
    and "DAList.lookup (environ context1) (env_var requirement) \<noteq> None \<longrightarrow>
         DAList.lookup (analysis_config (status_analysis context1)) ''source'' \<noteq> None"
    and "existing_filename (status_analysis context1) = None \<longrightarrow>
         DAList.lookup (environ context1) ''PROJECT_DIR'' \<noteq> None \<and>
         IOLoop_new D = None \<and> IOLoop_close D = None"
  shows "\<exists>context2. DownloadProvider_provide D requirement context = Inr context2 \<and>
     (if download_wanted requirement context1 = Inr True
      then (case existing_filename (status_analysis context1) of
              Some fname \<Rightarrow>
                environ context2 = DAList.update (env_var requirement) fname (environ context1) \<and>
                errors context2 = errors context1
            | None \<Rightarrow>
                (let fname = abspath_join D
                       (the (DAList.lookup (environ context1) ''PROJECT_DIR''))
                       (filename requirement)
                 in case FileDownloader_run D (url requirement) fname (hash_algorithm requirement) of
                      Inr code \<Rightarrow>
                        if code = 200
                        then environ context2 =
                               DAList.update (env_var requirement) fname (environ context1) \<and>
                             errors context2 = errors context1
                        else environ context2 = environ context1 \<and>
                             errors context2 = errors context1 @
                               [''Error downloading '' @ url requirement @
                                '': response code '' @ str_int code]
                    | Inl e \<Rightarrow>
                        environ context2 = environ context1 \<and>
                        errors context2 = errors context1 @
                          [''Error downloading '' @ url requirement @ '': '' @ e]))
      else context2 = context1)"
proof -
  from assms(3) have "\<exists>wanted. download_wanted requirement context1 = Inr wanted"
    by (cases "DAList.lookup (environ context1) (env_var requirement)")
       (auto simp: download_wanted_def)
  then obtain wanted where w: "download_wanted requirement context1 = Inr wanted" ..
  show ?thesis
  proof (cases wanted)
    case False
    with w assms(1,2) show ?thesis by (simp add: DownloadProvider_provide_def)
  next
    case True
    show ?thesis
    proof (cases "existing_filename (status_analysis context1)")
      case (Some fname)
      with True w assms(1,2) show ?thesis
        by (simp add: DownloadProvider_provide_def DownloadProvider_provide_download_def)
    next
      case None
      with assms(4) obtain dir where
        dir: "DAList.lookup (environ context1) ''PROJECT_DIR'' = Some dir"
        and loop: "IOLoop_new D = None" "IOLoop_close D = None"
        by auto
      with loop None True w assms(1,2) show ?thesis
        by (auto simp add: DownloadProvider_provide_def DownloadProvider_provide_download_def
              Let_def split: sum.splits)
    qed
  qed
qed

text \<open>
  The counterexample to C9 as stated: in provide mode, with no previously downloaded
  file and no \<open>PROJECT_DIR\<close> in the environment, the \<open>KeyError\<close> of the lookup leaves
  \<open>provide\<close>.
\<close>

theorem download_provide_raises_counterexample:
  "mode (download_context_of DAList.empty) \<noteq> PROVIDE_MODE_CHECK \<and>
   DownloadProvider_provide (example_downloads (Inr 200)) data_csv
     (download_context_of DAList.empty) = Inl (KeyError ''PROJECT_DIR'')"
  by (simp add: DownloadProvider_provide_def DownloadProvider_provide_download_def
        download_wanted_def example_downloads_def data_csv_def download_context_of_def)

text \<open>
  The instance: the variable is set, the source is \<open>download\<close>, \<open>PROJECT_DIR\<close> is set and
  the event loop is constructed and closed. A response 404 is reported in
  \<open>context.errors\<close> with the environment unchanged; a response 200 sets the variable to
  the downloaded file.
\<close>

theorem download_provide_reports_failures_witness:
  "EnvVarProvider_provide (example_downloads (Inr 404)) data_csv
      (download_context_of project_environ) = Inr (download_context_of project_environ) \<and>
   mode (download_context_of project_environ) \<noteq> PROVIDE_MODE_CHECK \<and>
   DAList.lookup (environ (download_context_of project_environ)) (env_var data_csv) \<noteq> None \<and>
   DAList.lookup (analysis_config (status_analysis (download_context_of project_environ)))
      ''source'' \<noteq> None \<and>
   existing_filename (status_analysis (download_context_of project_environ)) = None \<and>
   DAList.lookup (environ (download_context_of project_environ)) ''PROJECT_DIR'' \<noteq> None \<and>
   IOLoop_new (example_downloads (Inr 404)) = None \<and>
   IOLoop_close (example_downloads (Inr 404)) = None \<and>
   (\<exists>context2. DownloadProvider_provide (example_downloads (Inr 404)) data_csv
        (download_context_of project_environ) = Inr context2 \<and>
      environ context2 = project_environ \<and>
      errors context2 =
        [''Error downloading http://example.com/data.csv: response code 404'']) \<and>
   (\<exists>context2. DownloadProvider_provide (example_downloads (Inr 200)) data_csv
        (download_context_of project_environ) = Inr context2 \<and>
      environ context2 = DAList.update ''DATA_CSV'' ''/project/data.csv'' project_environ \<and>
      errors context2 = [])"
proof -
  have h1: "EnvVarProvider_provide (example_downloads outcome) data_csv
      (download_context_of project_environ) = Inr (download_context_of project_environ)"
    for outcome
    by (simp add: example_downloads_def)
  have h2: "mode (download_context_of project_environ) \<noteq> PROVIDE_MODE_CHECK"
    by (simp add: download_context_of_def)
  have h3: "DAList.lookup (environ (download_context_of project_environ)) (env_var data_csv) \<noteq> None"
       "DAList.lookup (analysis_config (status_analysis (download_context_of project_environ)))
          ''source'' \<noteq> None"
    by (simp_all add: download_defs)
  have h4: "existing_filename (status_analysis (download_context_of project_environ)) = None"
       "DAList.lookup (environ (download_context_of project_environ)) ''PROJECT_DIR'' \<noteq> None"
    by (simp_all add: download_defs)
  have h5: "IOLoop_new (example_downloads outcome) = None"
       "IOLoop_close (example_downloads outcome) = None" for outcome
    by (simp_all add: example_downloads_def)
  from download_provide_reports_failures[OF h1 h2, of "Inr 404"] h3 h4 h5
  have a: "\<exists>context2. DownloadProvider_provide (example_downloads (Inr 404)) data_csv
        (download_context_of project_environ) = Inr context2 \<and>
      environ context2 = project_environ \<and>
      errors context2 =
        [''Error downloading http://example.com/data.csv: response code 404'']"
    by (simp add: download_defs str_int_def str_nat.simps)
  from download_provide_reports_failures[OF h1 h2, of "Inr 200"] h3 h4 h5
  have b: "\<exists>context2. DownloadProvider_provide (example_downloads (Inr 200)) data_csv
        (download_context_of project_environ) = Inr context2 \<and>
      environ context2 = DAList.update ''DATA_CSV'' ''/project/data.csv'' project_environ \<and>
      errors context2 = []"
    by (simp add: download_defs)
  from h1 h2 h3 h4 h5 a b show ?thesis by blast
qed

section \<open>The commit step never deletes\<close>

text \<open>
  Claim C10. A key the caller's environment holds before \<open>prepare\<close> is still a key of it
  after the call, whatever the outcome. When the plan has run and the working copy no
  longer has the key (a provider popped it, as \<open>set_config_values_as_strings\<close> pops the
  requirement's variable), the caller's environment keeps the value it had.
\<close>

theorem commit_never_deletes:
  assumes "DAList.lookup env key = Some v"
  shows "DAList.lookup (caller_environ (prepare W proj ui_mode env)) key \<noteq> None \<and>
         (\<forall>s. prepare_execute W proj ui_mode env = Inr s \<and>
               DAList.lookup (environ_copy s) key = None \<longrightarrow>
               DAList.lookup (caller_environ (prepare W proj ui_mode env)) key = Some v)"
proof (cases "prepare_execute W proj ui_mode env")
  case (Inl e)
  with assms show ?thesis by (simp add: prepare_raised)
next
  case (Inr s)
  with assms show ?thesis
    by (auto simp add: prepare_returned commit_lookup split: option.splits)
qed

text \<open>
  The instance: the provider of \<open>NEW\<close> pops \<open>OLD\<close> from the working copy; the call
  succeeds, \<open>NEW\<close> is merged and \<open>OLD\<close> keeps its value for the caller.
\<close>

theorem commit_never_deletes_witness:
  "DAList.lookup (DAList.update ''OLD'' ''x'' home_environ) ''OLD'' = Some ''x'' \<and>
   (\<exists>s. prepare_execute example_world (example_project [''NEW'']) ''not_interactive''
           (DAList.update ''OLD'' ''x'' home_environ) = Inr s \<and>
        DAList.lookup (environ_copy s) ''OLD'' = None) \<and>
   returned (prepare example_world (example_project [''NEW'']) ''not_interactive''
     (DAList.update ''OLD'' ''x'' home_environ)) = Inr True \<and>
   DAList.lookup (caller_environ (prepare example_world (example_project [''NEW''])
     ''not_interactive'' (DAList.update ''OLD'' ''x'' home_environ))) ''NEW'' = Some ''2'' \<and>
   DAList.lookup (caller_environ (prepare example_world (example_project [''NEW''])
     ''not_interactive'' (DAList.update ''OLD'' ''x'' home_environ))) ''OLD'' = Some ''x''"
proof -
  have k: "DAList.lookup (DAList.update ''OLD'' ''x'' home_environ) ''OLD'' = Some ''x''"
    by simp
  obtain s where h: "prepare_execute example_world (example_project [''NEW'']) ''not_interactive''
           (DAList.update ''OLD'' ''x'' home_environ) = Inr s"
    and d: "DAList.lookup (environ_copy s) ''OLD'' = None"
    by (simp add: example_defs)
  have t: "returned (prepare example_world (example_project [''NEW'']) ''not_interactive''
     (DAList.update ''OLD'' ''x'' home_environ)) = Inr True \<and>
   DAList.lookup (caller_environ (prepare example_world (example_project [''NEW''])
     ''not_interactive'' (DAList.update ''OLD'' ''x'' home_environ))) ''NEW'' = Some ''2''"
    by (simp add: example_defs DAList.update.rep_eq DAList.empty.rep_eq DAList.delete.rep_eq)
  from commit_never_deletes[OF k, of example_world "example_project [''NEW'']" "''not_interactive''"]
    h d
  have "DAList.lookup (caller_environ (prepare example_world (example_project [''NEW''])
     ''not_interactive'' (DAList.update ''OLD'' ''x'' home_environ))) ''OLD'' = Some ''x''"
    by blast
  with k h d t show ?thesis by blast
qed

end
